theory Spec2Isabelle
  imports Complex_Main "HOL-Library.Word" "HOL-Library.AList"
begin

unbundle bit_operations_syntax

section \<open>JavaScript values and 32-bit operators\<close>

text \<open>
  The tile code of \<^verbatim>\<open>src/models/world.ts\<close> works on JavaScript numbers with the
  bitwise operators \<^verbatim>\<open>&\<close>, \<^verbatim>\<open>|\<close>, \<^verbatim>\<open>~\<close>, \<^verbatim>\<open><<\<close> and \<^verbatim>\<open>>>>\<close>. Each of them
  converts its operands to 32 bits (ECMAScript \<^verbatim>\<open>ToInt32\<close>, \<^verbatim>\<open>ToUint32\<close>), works on the
  bit patterns and hands back a number: a signed one for all operators but \<^verbatim>\<open>>>>\<close>,
  whose result is unsigned. Numbers are modelled as unbounded integers (the program
  only ever combines integers; fractions, NaN and values beyond \<open>2^53\<close> are outside
  the model), and \<^verbatim>\<open>undefined\<close>, which an out-of-range typed-array read produces, is a
  value of its own that both conversions send to \<open>0\<close>.
\<close>

datatype JSValue = Undefined | Number int

type_synonym u32 = "32 word"
type_synonym byte = "8 word"

definition ToInt32 :: "JSValue \<Rightarrow> u32" where
  "ToInt32 v = (case v of Undefined \<Rightarrow> 0 | Number n \<Rightarrow> word_of_int n)"

definition ToUint32 :: "JSValue \<Rightarrow> u32" where
  "ToUint32 v = (case v of Undefined \<Rightarrow> 0 | Number n \<Rightarrow> word_of_int n)"

text \<open>The shift count of \<^verbatim>\<open><<\<close> and \<^verbatim>\<open>>>>\<close> is the right operand masked to five bits.\<close>

definition shiftCount :: "JSValue \<Rightarrow> nat" where
  "shiftCount v = unat (ToUint32 v AND 31)"

definition js_and :: "JSValue \<Rightarrow> JSValue \<Rightarrow> JSValue" where
  "js_and a b = Number (sint (ToInt32 a AND ToInt32 b))"

definition js_or :: "JSValue \<Rightarrow> JSValue \<Rightarrow> JSValue" where
  "js_or a b = Number (sint (ToInt32 a OR ToInt32 b))"

definition js_not :: "JSValue \<Rightarrow> JSValue" where
  "js_not a = Number (sint (NOT (ToInt32 a)))"

definition js_shl :: "JSValue \<Rightarrow> JSValue \<Rightarrow> JSValue" where
  "js_shl a b = Number (sint (push_bit (shiftCount b) (ToInt32 a)))"

definition js_ushr :: "JSValue \<Rightarrow> JSValue \<Rightarrow> JSValue" where
  "js_ushr a b = Number (uint (drop_bit (shiftCount b) (ToUint32 a)))"

section \<open>The bit scheme\<close>

text \<open>
  \<^verbatim>\<open>World.bitScheme\<close>: five fields of a tile, each with its length, offset and mask.
  The masks are the binary literals of the source, written in decimal.
\<close>

datatype Property = entityType | entityId | terrain | homeTrail | foodTrail

record BitField =
  length_bf :: nat
  offset_bf :: int
  mask_bf :: int

fun bitScheme :: "Property \<Rightarrow> BitField" where
  "bitScheme entityType = \<lparr>length_bf = 4, offset_bf = 0, mask_bf = 15\<rparr>"
| "bitScheme entityId = \<lparr>length_bf = 12, offset_bf = 4, mask_bf = 65520\<rparr>"
| "bitScheme terrain = \<lparr>length_bf = 2, offset_bf = 16, mask_bf = 196608\<rparr>"
| "bitScheme homeTrail = \<lparr>length_bf = 3, offset_bf = 18, mask_bf = 1835008\<rparr>"
| "bitScheme foodTrail = \<lparr>length_bf = 3, offset_bf = 21, mask_bf = 14680064\<rparr>"

text \<open>\<^verbatim>\<open>static getBitValue(tile, property)\<close>: \<^verbatim>\<open>(tile & mask) >>> offset\<close>.\<close>

definition getBitValue :: "JSValue \<Rightarrow> Property \<Rightarrow> JSValue" where
  "getBitValue tile property =
     (let offset = offset_bf (bitScheme property); mask = mask_bf (bitScheme property)
      in js_ushr (js_and tile (Number mask)) (Number offset))"

text \<open>
  \<^verbatim>\<open>static setBitValue(tile, property, value)\<close>: \<^verbatim>\<open>(value << offset) | (tile & ~mask)\<close>.
  There is no check of \<open>value\<close> against the length of the field.
\<close>

definition setBitValue :: "JSValue \<Rightarrow> Property \<Rightarrow> JSValue \<Rightarrow> JSValue" where
  "setBitValue tile property value =
     (let mask = mask_bf (bitScheme property); offset = offset_bf (bitScheme property)
      in js_or (js_shl value (Number offset)) (js_and tile (js_not (Number mask))))"

section \<open>The grid buffer\<close>

text \<open>
  \<^verbatim>\<open>data\<close> is an \<^verbatim>\<open>ArrayBuffer\<close>, a sequence of bytes, and \<^verbatim>\<open>grid\<close> is a
  \<^verbatim>\<open>Uint32Array\<close> over the same bytes: element \<open>i\<close> of the view is the four bytes from
  \<open>4 * i\<close> on. The view uses the byte order of the host, taken as little-endian.
  Reading an index that is not an element of the view gives \<^verbatim>\<open>undefined\<close>; writing
  there does nothing. A write converts the number with \<^verbatim>\<open>ToUint32\<close>.
\<close>

type_synonym ArrayBuffer = "byte list"

definition byteLength :: "ArrayBuffer \<Rightarrow> int" where
  "byteLength b = int (length b)"

definition new_ArrayBuffer :: "nat \<Rightarrow> ArrayBuffer" where
  "new_ArrayBuffer n = replicate n 0"

definition u32_of_bytes :: "byte \<Rightarrow> byte \<Rightarrow> byte \<Rightarrow> byte \<Rightarrow> u32" where
  "u32_of_bytes b0 b1 b2 b3 =
     ucast b0 OR push_bit 8 (ucast b1) OR push_bit 16 (ucast b2) OR push_bit 24 (ucast b3)"

definition byte_of_u32 :: "u32 \<Rightarrow> nat \<Rightarrow> byte" where
  "byte_of_u32 v k = ucast (drop_bit (8 * k) v)"

definition Uint32Array_length :: "ArrayBuffer \<Rightarrow> int" where
  "Uint32Array_length b = int (length b div 4)"

definition Uint32Array_get :: "ArrayBuffer \<Rightarrow> int \<Rightarrow> JSValue" where
  "Uint32Array_get b i =
     (if 0 \<le> i \<and> i < Uint32Array_length b
      then (let k = 4 * nat i
            in Number (uint (u32_of_bytes (b ! k) (b ! (k + 1)) (b ! (k + 2)) (b ! (k + 3)))))
      else Undefined)"

definition Uint32Array_set :: "ArrayBuffer \<Rightarrow> int \<Rightarrow> JSValue \<Rightarrow> ArrayBuffer" where
  "Uint32Array_set b i value =
     (if 0 \<le> i \<and> i < Uint32Array_length b
      then (let k = 4 * nat i; v = ToUint32 value
            in b[k := byte_of_u32 v 0, k + 1 := byte_of_u32 v 1,
                 k + 2 := byte_of_u32 v 2, k + 3 := byte_of_u32 v 3])
      else b)"

section \<open>Entities, rectangles and the spatial index\<close>

text \<open>
  An entity is an object of the simulation, held by reference: \<^verbatim>\<open>indexOf\<close> and
  \<^verbatim>\<open>Set\<close> compare references, so an entity is modelled by its identity alone and
  its mutable position lives in a separate table (\<open>EntityPos\<close>).
\<close>

datatype Entity = Entity nat

type_synonym EntityPos = "Entity \<Rightarrow> real \<times> real"

text \<open>
  Modelled from the spec: the class \<^verbatim>\<open>Rectangle\<close> of \<^verbatim>\<open>./quadtree\<close>, which is
  not among the sources. \<^verbatim>\<open>new Rectangle(x, y, w, h)\<close> is a box given by its centre and
  its half-extents; \<^verbatim>\<open>World\<close> only constructs it.
\<close>

datatype Rectangle = Rectangle real real real real

text \<open>
  Modelled from the spec: the class \<^verbatim>\<open>Quadtree\<close> of \<^verbatim>\<open>./quadtree\<close>, which is
  not among the sources. \<^verbatim>\<open>World\<close> uses it through its constructor and the four
  methods of the interface \<^verbatim>\<open>EntityStorage\<close> (\<^verbatim>\<open>src/lib/entity-storage.ts\<close>):
  \<^verbatim>\<open>insert(point): boolean\<close>, \<^verbatim>\<open>remove(target): Entity | false\<close>, \<^verbatim>\<open>clear(): void\<close>
  and \<^verbatim>\<open>query(range, found): Entity[]\<close>. The index is a parameter of the model: a
  state type \<open>'q\<close> and one function for each method, which returns the method's result
  and, where the method mutates the index, the new state. The methods are taken to
  return normally, as their declared types say.
\<close>

record 'q EntityStorage =
  new_qt :: "Rectangle \<Rightarrow> nat \<Rightarrow> 'q"
  insert_qt :: "Entity \<Rightarrow> 'q \<Rightarrow> bool \<times> 'q"
  remove_qt :: "Entity \<Rightarrow> 'q \<Rightarrow> Entity option \<times> 'q"
  clear_qt :: "'q \<Rightarrow> 'q"
  query_qt :: "Rectangle \<Rightarrow> 'q \<Rightarrow> Entity list"

text \<open>
  A JavaScript \<^verbatim>\<open>Set\<close> keeps its members in insertion order without duplicates:
  a list, with \<^verbatim>\<open>add\<close>, \<^verbatim>\<open>delete\<close> and \<^verbatim>\<open>size\<close>.
\<close>

definition Set_add :: "'a \<Rightarrow> 'a list \<Rightarrow> 'a list" where
  "Set_add a s = (if a \<in> set s then s else s @ [a])"

definition Set_delete :: "'a \<Rightarrow> 'a list \<Rightarrow> 'a list" where
  "Set_delete a s = removeAll a s"

definition Set_size :: "'a list \<Rightarrow> nat" where
  "Set_size s = length s"

text \<open>\<^verbatim>\<open>Array.prototype.indexOf\<close>: the first index of the element, or \<open>-1\<close>.\<close>

fun indexOf :: "'a list \<Rightarrow> 'a \<Rightarrow> int" where
  "indexOf [] a = -1"
| "indexOf (x # xs) a =
     (if x = a then 0 else (let i = indexOf xs a in if i = -1 then -1 else i + 1))"

text \<open>\<^verbatim>\<open>xs.splice(index, 1)\<close> for an index that \<^verbatim>\<open>indexOf\<close> found.\<close>

definition splice1 :: "'a list \<Rightarrow> int \<Rightarrow> 'a list" where
  "splice1 xs index = take (nat index) xs @ drop (nat index + 1) xs"

section \<open>The world\<close>

text \<open>\<^verbatim>\<open>type Layer = { entities: Set<Entity>; qtree: Quadtree }\<close>\<close>

record 'q Layer =
  entities :: "Entity list"
  qtree :: 'q

text \<open>
  The fields of \<^verbatim>\<open>class World\<close>. \<^verbatim>\<open>grid\<close> is the \<^verbatim>\<open>Uint32Array\<close> view of
  \<^verbatim>\<open>data\<close> and has no state of its own. \<^verbatim>\<open>entityLayers\<close> is a \<^verbatim>\<open>Map\<close>, which
  iterates in insertion order: an association list, read with \<open>map_of\<close> and written
  with \<open>AList.update\<close>, which replaces the value of a key in place and appends a new key.
\<close>

record 'q World =
  width :: int
  height :: int
  data :: ArrayBuffer
  entities :: "Entity list"
  entityLayers :: "(string \<times> 'q Layer) list"

definition quadtreeCapacity :: nat where
  "quadtreeCapacity = 4"

definition DEFAULT_LAYER_ID :: string where
  "DEFAULT_LAYER_ID = ''DEFAULT''"

text \<open>A parameter \<^verbatim>\<open>layerId = DEFAULT_LAYER_ID\<close>: the default stands for a missing argument.\<close>

definition layerIdOrDefault :: "string option \<Rightarrow> string" where
  "layerIdOrDefault layerId = (case layerId of None \<Rightarrow> DEFAULT_LAYER_ID | Some s \<Rightarrow> s)"

text \<open>
  The constructor throws an \<^verbatim>\<open>Error\<close> (\<open>SizeMismatch\<close>) for a buffer of the wrong
  size. \<^verbatim>\<open>new Uint32Array(buffer)\<close> throws a \<^verbatim>\<open>RangeError\<close> for a buffer whose
  length is not a multiple of four.
\<close>

datatype error = SizeMismatch | RangeError

text \<open>
  \<^verbatim>\<open>new ArrayBuffer(length)\<close> throws a \<^verbatim>\<open>RangeError\<close> for a negative length and
  for a length that the host does not allocate. The largest length that the host
  allocates is not fixed by the language (it is at most \<open>2^53 - 1\<close>) and is a parameter
  of the model, \<open>maxByteLength\<close>. An allocated buffer is filled with zeros.
\<close>

definition ArrayBuffer_constructor :: "int \<Rightarrow> int \<Rightarrow> error + ArrayBuffer" where
  "ArrayBuffer_constructor maxByteLength length' =
     (if length' < 0 \<or> maxByteLength < length' then Inl RangeError
      else Inr (new_ArrayBuffer (nat length')))"

text \<open>
  \<^verbatim>\<open>constructor(width, height, entities?, worldData?)\<close>, on a host that allocates
  buffers of up to \<open>maxByteLength\<close> bytes.
\<close>

definition World_constructor ::
  "int \<Rightarrow> int \<Rightarrow> int \<Rightarrow> Entity list option \<Rightarrow> ArrayBuffer option \<Rightarrow> error + 'q World" where
  "World_constructor maxByteLength width' height' entities' worldData =
     (let ents = (case entities' of Some es \<Rightarrow> es | None \<Rightarrow> []);
          byteLength' = width' * height' * 4;
          mk = (\<lambda>buf. if byteLength buf mod 4 \<noteq> 0 then Inl RangeError
                       else Inr \<lparr>width = width', height = height', data = buf,
                                 entities = ents, entityLayers = []\<rparr>)
      in case worldData of
           Some buf \<Rightarrow>
             if byteLength buf \<noteq> byteLength' then Inl SizeMismatch else mk buf
         | None \<Rightarrow>
             (case ArrayBuffer_constructor maxByteLength byteLength' of
                Inl e \<Rightarrow> Inl e
              | Inr buf \<Rightarrow> mk buf))"

text \<open>\<^verbatim>\<open>insert(entity, layerId = DEFAULT_LAYER_ID)\<close>\<close>

definition insert_World ::
  "'q EntityStorage \<Rightarrow> 'q World \<Rightarrow> Entity \<Rightarrow> string option \<Rightarrow> 'q World" where
  "insert_World qt w entity layerId' =
     (let layerId = layerIdOrDefault layerId';
          (layer, layers1) =
            (case map_of (entityLayers w) layerId of
               Some l \<Rightarrow> (l, entityLayers w)
             | None \<Rightarrow>
                 (let l = \<lparr>Layer.entities = [],
                           qtree = new_qt qt
                             (Rectangle (real_of_int (width w) / 2) (real_of_int (height w) / 2)
                                        (real_of_int (width w) / 2) (real_of_int (height w) / 2))
                             quadtreeCapacity\<rparr>
                  in (l, AList.update layerId l (entityLayers w))));
          layer' = \<lparr>Layer.entities = Set_add entity (Layer.entities layer),
                    qtree = snd (insert_qt qt entity (qtree layer))\<rparr>
      in w\<lparr>entityLayers := AList.update layerId layer' layers1,
           World.entities := World.entities w @ [entity]\<rparr>)"

text \<open>
  \<^verbatim>\<open>remove(entity, layerId = DEFAULT_LAYER_ID): Entity | null\<close>. The result of
  \<^verbatim>\<open>layer.qtree.remove\<close> is not looked at.
\<close>

definition remove_World ::
  "'q EntityStorage \<Rightarrow> 'q World \<Rightarrow> Entity \<Rightarrow> string option \<Rightarrow> Entity option \<times> 'q World" where
  "remove_World qt w entity layerId' =
     (let layerId = layerIdOrDefault layerId';
          index = indexOf (World.entities w) entity;
          w1 = (if index > -1 then w\<lparr>World.entities := splice1 (World.entities w) index\<rparr>
                else w)
      in case map_of (entityLayers w1) layerId of
           None \<Rightarrow> (None, w1)
         | Some layer \<Rightarrow>
             (let layer' = \<lparr>Layer.entities = Set_delete entity (Layer.entities layer),
                           qtree = snd (remove_qt qt entity (qtree layer))\<rparr>
              in (Some entity,
                  w1\<lparr>entityLayers := AList.update layerId layer' (entityLayers w1)\<rparr>)))"

text \<open>\<^verbatim>\<open>query(range, layerId = DEFAULT_LAYER_ID)\<close>\<close>

definition query ::
  "'q EntityStorage \<Rightarrow> 'q World \<Rightarrow> Rectangle \<Rightarrow> string option \<Rightarrow> Entity list" where
  "query qt w range' layerId' =
     (let layerId = layerIdOrDefault layerId'
      in if layerId = ''ALL''
         then concat (map (\<lambda>(name, layer). query_qt qt range' (qtree layer)) (entityLayers w))
         else (case map_of (entityLayers w) layerId of
                 None \<Rightarrow> []
               | Some layer \<Rightarrow> query_qt qt range' (qtree layer)))"

text \<open>\<^verbatim>\<open>nearby(entity, radius, layerId = DEFAULT_LAYER_ID)\<close>\<close>

definition nearby ::
  "'q EntityStorage \<Rightarrow> EntityPos \<Rightarrow> 'q World \<Rightarrow> Entity \<Rightarrow> real \<Rightarrow> string option
     \<Rightarrow> Entity list" where
  "nearby qt pos w entity radius layerId' =
     query qt w (Rectangle (fst (pos entity)) (snd (pos entity)) radius radius) layerId'"

text \<open>The tile accessors.\<close>

definition getTileRaw :: "'q World \<Rightarrow> int \<Rightarrow> int \<Rightarrow> JSValue" where
  "getTileRaw w x y = Uint32Array_get (data w) (y * width w + x)"

definition setTileRaw :: "'q World \<Rightarrow> int \<Rightarrow> int \<Rightarrow> JSValue \<Rightarrow> 'q World" where
  "setTileRaw w x y value = w\<lparr>data := Uint32Array_set (data w) (y * width w + x) value\<rparr>"

definition getTileProp :: "'q World \<Rightarrow> int \<Rightarrow> int \<Rightarrow> Property \<Rightarrow> JSValue" where
  "getTileProp w x y property = getBitValue (getTileRaw w x y) property"

definition setTileProp :: "'q World \<Rightarrow> int \<Rightarrow> int \<Rightarrow> Property \<Rightarrow> JSValue \<Rightarrow> 'q World" where
  "setTileProp w x y property value =
     (let tile = getTileRaw w x y
      in setTileRaw w x y (setBitValue tile property value))"

section \<open>Auxiliary notions\<close>

text \<open>
  The constructor leaves a world whose buffer has four bytes for each of the
  \<open>width * height\<close> tiles; the fields are \<^verbatim>\<open>readonly\<close> and no method resizes the buffer.
  The dimensions of a grid are not negative.
\<close>

definition World_ok :: "'q World \<Rightarrow> bool" where
  "World_ok w \<longleftrightarrow>
     0 \<le> width w \<and> 0 \<le> height w \<and> byteLength (data w) = width w * height w * 4"

text \<open>The offset of a field as a number of bit positions.\<close>

definition offsetOf :: "Property \<Rightarrow> nat" where
  "offsetOf p = nat (offset_bf (bitScheme p))"

text \<open>
  The field that starts where a field ends (its adjacent higher field). Above
  \<open>foodTrail\<close> there are only the unused bits 24 to 31.
\<close>

fun higherField :: "Property \<Rightarrow> Property option" where
  "higherField entityType = Some entityId"
| "higherField entityId = Some terrain"
| "higherField terrain = Some homeTrail"
| "higherField homeTrail = Some foodTrail"
| "higherField foodTrail = None"

text \<open>
  Modelled from the spec: \<^verbatim>\<open>Rectangle.contains\<close>, for a box with centre \<open>(cx, cy)\<close> and
  half-extents \<open>(hw, hh)\<close>, both bounds inclusive.
\<close>

fun contains :: "Rectangle \<Rightarrow> real \<times> real \<Rightarrow> bool" where
  "contains (Rectangle cx cy hw hh) (px, py) \<longleftrightarrow>
     cx - hw \<le> px \<and> px \<le> cx + hw \<and> cy - hh \<le> py \<and> py \<le> cy + hh"

text \<open>
  Modelled from the spec: a storage with the behaviour that the spec gives the methods
  of \<^verbatim>\<open>EntityStorage\<close>, kept as a plain list that is scanned linearly. It stands in
  for the \<^verbatim>\<open>Quadtree\<close> where the model is run on concrete inputs; the theorems about
  \<^verbatim>\<open>World\<close> hold for every storage.
\<close>

record LinearIndex =
  boundary :: Rectangle
  capacity :: nat
  points :: "Entity list"

definition linearIndex :: "EntityPos \<Rightarrow> LinearIndex EntityStorage" where
  "linearIndex pos =
     \<lparr>new_qt = (\<lambda>b c. \<lparr>boundary = b, capacity = c, points = []\<rparr>),
      insert_qt = (\<lambda>e q. if contains (boundary q) (pos e)
                           then (True, q\<lparr>points := points q @ [e]\<rparr>) else (False, q)),
      remove_qt = (\<lambda>e q. if e \<in> set (points q)
                           then (Some e, q\<lparr>points := remove1 e (points q)\<rparr>) else (None, q)),
      clear_qt = (\<lambda>q. q\<lparr>points := []\<rparr>),
      query_qt = (\<lambda>r q. filter (\<lambda>e. contains r (pos e)) (points q))\<rparr>"

text \<open>
  Concrete inputs: the world of the tests, \<^verbatim>\<open>new World(5, 5)\<close>, and a table that puts
  every entity at \<open>(1, 1)\<close>.
\<close>

definition world55 :: "LinearIndex World" where
  "world55 = \<lparr>width = 5, height = 5, data = new_ArrayBuffer 100,
              entities = [], entityLayers = []\<rparr>"

definition posAt11 :: EntityPos where
  "posAt11 e = (1, 1)"

text \<open>The same world with three tiles set as the tests set them.\<close>

definition world55t :: "LinearIndex World" where
  "world55t =
     setTileRaw (setTileRaw (setTileRaw world55 3 3 (Number 57353)) 4 4 (Number 131072))
       3 4 (Number 10)"

text \<open>
  Two entities, the linear storage over \<open>posAt11\<close>, and the worlds that a short run
  of \<^verbatim>\<open>insert\<close> and \<^verbatim>\<open>remove\<close> calls goes through: the entity is inserted into
  layer \<open>A\<close>, removed naming the layer \<open>B\<close>, which does not exist, inserted into \<open>A\<close>
  again and removed from \<open>A\<close>.
\<close>

definition e0 :: Entity where
  "e0 = Entity 0"

definition e1 :: Entity where
  "e1 = Entity 1"

definition qt0 :: "LinearIndex EntityStorage" where
  "qt0 = linearIndex posAt11"

definition worldA1 :: "LinearIndex World" where
  "worldA1 = insert_World qt0 world55 e0 (Some ''A'')"

definition worldA2 :: "LinearIndex World" where
  "worldA2 = snd (remove_World qt0 worldA1 e0 (Some ''B''))"

definition worldA3 :: "LinearIndex World" where
  "worldA3 = insert_World qt0 worldA2 e0 (Some ''A'')"

definition worldA4 :: "LinearIndex World" where
  "worldA4 = snd (remove_World qt0 worldA3 e0 (Some ''A''))"

text \<open>The layer \<open>A\<close> of \<open>worldA1\<close>.\<close>

definition layerA1 :: "LinearIndex Layer" where
  "layerA1 = \<lparr>Layer.entities = [e0],
     qtree = \<lparr>boundary = Rectangle (5 / 2) (5 / 2) (5 / 2) (5 / 2), capacity = 4,
              points = [e0]\<rparr>\<rparr>"

section \<open>The typed-array view\<close>

lemma u32_bytes_roundtrip:
  "u32_of_bytes (byte_of_u32 v 0) (byte_of_u32 v 1) (byte_of_u32 v 2) (byte_of_u32 v 3) = v"
proof (rule bit_word_eqI)
  fix n :: nat
  assume n: "n < LENGTH(32)"
  consider "n < 8" | "8 \<le> n" "n < 16" | "16 \<le> n" "n < 24" | "24 \<le> n" "n < 32"
    using n by fastforce
  then show "bit (u32_of_bytes (byte_of_u32 v 0) (byte_of_u32 v 1) (byte_of_u32 v 2)
      (byte_of_u32 v 3)) n = bit v n"
    unfolding u32_of_bytes_def byte_of_u32_def
    by cases (auto simp add: bit_simps)
qed

lemma Uint32Array_length_update [simp]:
  "Uint32Array_length (b[k := a]) = Uint32Array_length b"
  by (simp add: Uint32Array_length_def)

lemma Uint32Array_length_set [simp]:
  "Uint32Array_length (Uint32Array_set b i v) = Uint32Array_length b"
  by (simp add: Uint32Array_length_def Uint32Array_set_def Let_def)

lemma length_Uint32Array_set [simp]:
  "length (Uint32Array_set b i v) = length b"
  by (simp add: Uint32Array_set_def Let_def)

lemma Uint32Array_get_set_same:
  assumes "0 \<le> i" "i < Uint32Array_length b"
  shows "Uint32Array_get (Uint32Array_set b i v) i = Number (uint (ToUint32 v))"
proof -
  have len: "4 * nat i + 3 < length b"
    using assms by (simp add: Uint32Array_length_def)
  have "Uint32Array_get (Uint32Array_set b i v) i =
      Number (uint (u32_of_bytes (byte_of_u32 (ToUint32 v) 0) (byte_of_u32 (ToUint32 v) 1)
        (byte_of_u32 (ToUint32 v) 2) (byte_of_u32 (ToUint32 v) 3)))"
    using assms len
    by (simp add: Uint32Array_get_def Uint32Array_set_def Let_def)
  then show ?thesis
    by (simp only: u32_bytes_roundtrip)
qed

lemma Uint32Array_get_set_other:
  assumes "i \<noteq> j"
  shows "Uint32Array_get (Uint32Array_set b i v) j = Uint32Array_get b j"
proof (cases "0 \<le> i \<and> i < Uint32Array_length b \<and> 0 \<le> j \<and> j < Uint32Array_length b")
  case True
  then have "4 * nat i + 3 < 4 * nat j \<or> 4 * nat j + 3 < 4 * nat i"
    using assms by linarith
  then show ?thesis
    using True
    by (auto simp add: Uint32Array_get_def Uint32Array_set_def Let_def)
next
  case False
  then show ?thesis
    by (auto simp add: Uint32Array_get_def Uint32Array_set_def Let_def)
qed

lemma Uint32Array_length_World:
  assumes "World_ok w"
  shows "Uint32Array_length (data w) = width w * height w"
proof -
  have "int (length (data w) div 4) = int (length (data w)) div 4"
    by (simp add: zdiv_int)
  then show ?thesis
    using assms by (simp add: World_ok_def Uint32Array_length_def byteLength_def)
qed

lemma index_in_range:
  fixes x y wd ht :: int
  assumes "0 \<le> x" "x < wd" "0 \<le> y" "y < ht"
  shows "0 \<le> y * wd + x" "y * wd + x < wd * ht"
proof -
  show "0 \<le> y * wd + x" using assms by simp
  have "y + 1 \<le> ht" using assms by simp
  then have "(y + 1) * wd \<le> ht * wd"
    using assms by (intro mult_right_mono) auto
  then show "y * wd + x < wd * ht"
    using assms by (simp add: algebra_simps)
qed

lemma getTileRaw_setTileRaw_same:
  assumes "World_ok w" "0 \<le> x" "x < width w" "0 \<le> y" "y < height w"
  shows "getTileRaw (setTileRaw w x y value) x y = Number (uint (ToUint32 value))"
proof -
  have "0 \<le> y * width w + x" "y * width w + x < Uint32Array_length (data w)"
    using index_in_range [OF assms(2-5)] assms(1)
    by (simp_all add: Uint32Array_length_World)
  then show ?thesis
    by (simp add: getTileRaw_def setTileRaw_def Uint32Array_get_set_same)
qed

section \<open>The bit fields on 32-bit words\<close>

lemma shiftCount_offset:
  "shiftCount (Number (offset_bf (bitScheme p))) = offsetOf p"
  by (cases p) (simp_all add: shiftCount_def ToUint32_def offsetOf_def)

lemma mask_word:
  "(word_of_int (mask_bf (bitScheme p)) :: u32) =
     push_bit (offsetOf p) (mask (length_bf (bitScheme p)))"
  by (cases p) (simp_all add: offsetOf_def mask_numeral)

lemma field_fits: "offsetOf p + length_bf (bitScheme p) \<le> 32"
  by (cases p) (simp_all add: offsetOf_def)

lemma fields_disjoint:
  "p \<noteq> q \<Longrightarrow>
     offsetOf p + length_bf (bitScheme p) \<le> offsetOf q \<or>
     offsetOf q + length_bf (bitScheme q) \<le> offsetOf p"
  by (cases p; cases q) (simp_all add: offsetOf_def)

lemma ToInt32_Number_sint [simp]: "ToInt32 (Number (sint (w :: u32))) = w"
  by (simp add: ToInt32_def)

lemma ToUint32_Number_sint [simp]: "ToUint32 (Number (sint (w :: u32))) = w"
  by (simp add: ToUint32_def)

lemma ToInt32_Number_uint [simp]: "ToInt32 (Number (uint (w :: u32))) = w"
  by (simp add: ToInt32_def)

lemma ToUint32_Number_uint [simp]: "ToUint32 (Number (uint (w :: u32))) = w"
  by (simp add: ToUint32_def)

lemma getBitValue_word:
  "getBitValue tile p =
     Number (uint (drop_bit (offsetOf p)
       (ToInt32 tile AND push_bit (offsetOf p) (mask (length_bf (bitScheme p))))))"
  by (simp add: getBitValue_def Let_def js_ushr_def js_and_def shiftCount_offset
      mask_word [symmetric] ToInt32_def)

lemma setBitValue_word:
  "setBitValue tile p value =
     Number (sint (push_bit (offsetOf p) (ToInt32 value) OR
       (ToInt32 tile AND NOT (push_bit (offsetOf p) (mask (length_bf (bitScheme p)))))))"
  by (simp add: setBitValue_def Let_def js_or_def js_shl_def js_and_def js_not_def
      shiftCount_offset mask_word [symmetric] ToInt32_def)

lemma field_get_set:
  fixes v t :: u32
  assumes "take_bit len v = v" "off + len \<le> 32"
  shows "drop_bit off ((push_bit off v OR (t AND NOT (push_bit off (mask len))))
           AND push_bit off (mask len)) = v"
proof (rule bit_word_eqI)
  fix n :: nat
  assume n: "n < LENGTH(32)"
  have v: "bit v n \<Longrightarrow> n < len"
    using assms(1) by (metis bit_take_bit_iff)
  show "bit (drop_bit off ((push_bit off v OR (t AND NOT (push_bit off (mask len))))
           AND push_bit off (mask len))) n = bit v n"
    using v assms(2) n by (auto simp add: bit_simps)
qed

lemma field_get_other:
  fixes v t :: u32
  assumes "take_bit len v = v" "off + len \<le> 32"
    and "off + len \<le> off' \<or> off' + len' \<le> off"
  shows "drop_bit off' ((push_bit off v OR (t AND NOT (push_bit off (mask len))))
           AND push_bit off' (mask len'))
       = drop_bit off' (t AND push_bit off' (mask len'))"
proof (rule bit_word_eqI)
  fix n :: nat
  assume n: "n < LENGTH(32)"
  have v: "\<And>k. bit v k \<Longrightarrow> k < len"
    using assms(1) by (metis bit_take_bit_iff)
  show "bit (drop_bit off' ((push_bit off v OR (t AND NOT (push_bit off (mask len))))
           AND push_bit off' (mask len'))) n
     = bit (drop_bit off' (t AND push_bit off' (mask len'))) n"
    using assms(2,3) n by (auto simp add: bit_simps dest!: v)
qed

lemma value_fits:
  fixes v :: int
  assumes "0 \<le> v" "v < 2 ^ n" "n \<le> 32"
  shows "take_bit n (word_of_int v :: u32) = word_of_int v" "uint (word_of_int v :: u32) = v"
proof -
  have tb: "take_bit n v = v"
    using assms by (simp add: take_bit_int_eq_self)
  have v: "\<And>k. bit v k \<Longrightarrow> k < n"
    using tb by (metis bit_take_bit_iff)
  show "take_bit n (word_of_int v :: u32) = word_of_int v"
    by (rule bit_word_eqI) (auto simp add: bit_simps dest: v)
  have "(2::int) ^ n \<le> 2 ^ 32"
    using assms(3) by (intro power_increasing) auto
  then have "v < 2 ^ 32"
    using assms(2) by linarith
  then show "uint (word_of_int v :: u32) = v"
    using assms(1) by (simp add: uint_word_of_int_eq take_bit_int_eq_self)
qed

section \<open>Tiles\<close>

lemmas tile_eval = getTileRaw_def setTileRaw_def getTileProp_def setTileProp_def
  getBitValue_def setBitValue_def js_and_def js_or_def js_not_def js_shl_def js_ushr_def
  shiftCount_def ToInt32_def ToUint32_def Uint32Array_get_def Uint32Array_set_def
  Uint32Array_length_def new_ArrayBuffer_def byte_of_u32_def u32_of_bytes_def Let_def

lemma World_ok_world55: "World_ok world55"
  by (simp add: World_ok_def world55_def byteLength_def new_ArrayBuffer_def)

lemma World_ok_setTileRaw: "World_ok w \<Longrightarrow> World_ok (setTileRaw w x y value)"
  by (simp add: World_ok_def setTileRaw_def byteLength_def)

lemma World_ok_setTileProp: "World_ok w \<Longrightarrow> World_ok (setTileProp w x y p value)"
  by (simp add: setTileProp_def Let_def World_ok_setTileRaw)

lemma World_ok_world55t: "World_ok world55t"
  unfolding world55t_def by (intro World_ok_setTileRaw World_ok_world55)

lemma getTileRaw_Number_in_range:
  assumes "getTileRaw w x y = Number n"
  shows "0 \<le> y * width w + x" "y * width w + x < Uint32Array_length (data w)"
  using assms by (auto simp add: getTileRaw_def Uint32Array_get_def split: if_splits)

lemma getTileRaw_setTileProp:
  assumes "getTileRaw w x y = Number n"
  shows "getTileRaw (setTileProp w x y p value) x y =
    Number (uint (ToUint32 (setBitValue (Number n) p value)))"
  using getTileRaw_Number_in_range [OF assms] assms
  by (simp add: setTileProp_def Let_def setTileRaw_def Uint32Array_get_set_same
      getTileRaw_def [of "w\<lparr>data := _\<rparr>"])

text \<open>
  C1. Field round-trip and isolation. In a world whose buffer has the size the
  constructor gives it, at an in-bounds coordinate \<open>(x, y)\<close>, whatever the tile holds:
  writing a value \<open>v\<close> of the field's range, \<open>0 \<le> v < 2 ^ length\<close>, with
  \<^verbatim>\<open>setTileProp\<close> and reading the field back with \<^verbatim>\<open>getTileProp\<close> gives \<open>v\<close>, and
  every other field of the tile reads as it did before the write. The values of a
  field are the unsigned numbers of its bit width.
\<close>

theorem setTileProp_getTileProp_roundtrip:
  assumes "World_ok w" "0 \<le> x" "x < width w" "0 \<le> y" "y < height w"
    and "0 \<le> v" "v < 2 ^ length_bf (bitScheme field)"
  shows "getTileProp (setTileProp w x y field (Number v)) x y field = Number v \<and>
    (\<forall>other. other \<noteq> field \<longrightarrow>
       getTileProp (setTileProp w x y field (Number v)) x y other = getTileProp w x y other)"
proof -
  let ?tile = "getTileRaw w x y"
  let ?len = "length_bf (bitScheme field)"
  let ?off = "offsetOf field"
  let ?V = "word_of_int v :: u32"
  let ?W = "push_bit ?off ?V OR (ToInt32 ?tile AND NOT (push_bit ?off (mask ?len)))"
  have fits: "?off + ?len \<le> 32"
    by (rule field_fits)
  then have len: "?len \<le> 32"
    by simp
  have tb: "take_bit ?len ?V = ?V" and uv: "uint ?V = v"
    using value_fits [OF assms(6,7) len] by simp_all
  have raw: "getTileRaw (setTileProp w x y field (Number v)) x y = Number (uint ?W)"
    using getTileRaw_setTileRaw_same [OF assms(1-5)]
    by (simp add: setTileProp_def Let_def setBitValue_word ToInt32_def)
  have get: "getTileProp (setTileProp w x y field (Number v)) x y p =
      Number (uint (drop_bit (offsetOf p)
        (?W AND push_bit (offsetOf p) (mask (length_bf (bitScheme p))))))"
    for p
    by (simp only: getTileProp_def raw getBitValue_word ToInt32_Number_uint)
  have same: "getTileProp (setTileProp w x y field (Number v)) x y field = Number v"
    by (simp only: get field_get_set [OF tb fits] uv)
  have other: "getTileProp (setTileProp w x y field (Number v)) x y other = getTileProp w x y other"
    if "other \<noteq> field" for other
  proof -
    have "?off + ?len \<le> offsetOf other \<or> offsetOf other + length_bf (bitScheme other) \<le> ?off"
      using fields_disjoint [of field other] that by auto
    then have "drop_bit (offsetOf other)
          (?W AND push_bit (offsetOf other) (mask (length_bf (bitScheme other)))) =
        drop_bit (offsetOf other)
          (ToInt32 ?tile AND push_bit (offsetOf other) (mask (length_bf (bitScheme other))))"
      by (rule field_get_other [OF tb fits])
    moreover have "getTileProp w x y other =
        Number (uint (drop_bit (offsetOf other)
          (ToInt32 ?tile AND push_bit (offsetOf other) (mask (length_bf (bitScheme other))))))"
      by (simp only: getTileProp_def getBitValue_word)
    ultimately show ?thesis
      by (simp only: get)
  qed
  from same other show ?thesis
    by blast
qed

text \<open>
  The tile \<open>(3, 3)\<close> of \<open>world55t\<close> holds \<^verbatim>\<open>0xe009\<close>: entity type 9, entity id
  \<^verbatim>\<open>0xe00\<close>. Writing entity type 5 reads back as 5 and leaves the entity id.
\<close>

theorem setTileProp_getTileProp_roundtrip_witness:
  "World_ok world55t
     \<and> (0::int) \<le> 3 \<and> 3 < width world55t \<and> 3 < height world55t
     \<and> (0::int) \<le> 5 \<and> (5::int) < 2 ^ length_bf (bitScheme entityType)
     \<and> getTileProp world55t 3 3 entityType = Number 9
     \<and> getTileProp world55t 3 3 entityId = Number 3584
     \<and> getTileProp (setTileProp world55t 3 3 entityType (Number 5)) 3 3 entityType = Number 5
     \<and> getTileProp (setTileProp world55t 3 3 entityType (Number 5)) 3 3 entityId = Number 3584"
proof -
  have ok: "World_ok world55t"
    by (rule World_ok_world55t)
  have b: "(0::int) \<le> 3" "3 < width world55t" "(0::int) \<le> 3" "3 < height world55t"
    "(0::int) \<le> 5" "(5::int) < 2 ^ length_bf (bitScheme entityType)"
    by (simp_all add: world55t_def world55_def setTileRaw_def)
  have old: "getTileProp world55t 3 3 entityType = Number 9"
    "getTileProp world55t 3 3 entityId = Number 3584"
    by (simp_all add: world55t_def world55_def tile_eval)
  have "entityId \<noteq> entityType"
    by simp
  with setTileProp_getTileProp_roundtrip [OF ok b] old ok b show ?thesis
    by simp
qed

text \<open>
  C2. Raw round-trip. In a world whose buffer has the size the constructor gives it,
  for every in-bounds coordinate, \<open>0 \<le> x < width\<close> and \<open>0 \<le> y < height\<close>, and every
  unsigned 32-bit value \<open>v\<close>: \<^verbatim>\<open>setTileRaw(x, y, v)\<close> followed by \<^verbatim>\<open>getTileRaw(x, y)\<close>
  returns exactly \<open>v\<close>.
\<close>

theorem setTileRaw_getTileRaw_roundtrip:
  assumes "World_ok w" "0 \<le> x" "x < width w" "0 \<le> y" "y < height w"
    and "0 \<le> v" "v < 2 ^ 32"
  shows "getTileRaw (setTileRaw w x y (Number v)) x y = Number v"
proof -
  have "getTileRaw (setTileRaw w x y (Number v)) x y = Number (uint (ToUint32 (Number v)))"
    by (rule getTileRaw_setTileRaw_same [OF assms(1-5)])
  also have "uint (ToUint32 (Number v)) = v"
    using value_fits(2) [OF assms(6,7)] by (simp add: ToUint32_def)
  finally show ?thesis .
qed

text \<open>The test \<^verbatim>\<open>setTileRaw(3, 2, 420)\<close> on the world of five by five tiles.\<close>

theorem setTileRaw_getTileRaw_roundtrip_witness:
  "World_ok world55 \<and> (0::int) \<le> 3 \<and> 3 < width world55 \<and> (0::int) \<le> 2 \<and> 2 < height world55
     \<and> (0::int) \<le> 420 \<and> (420::int) < 2 ^ 32
     \<and> getTileRaw (setTileRaw world55 3 2 (Number 420)) 3 2 = Number 420"
proof -
  have ok: "World_ok world55"
    by (rule World_ok_world55)
  have b: "(0::int) \<le> 3" "3 < width world55" "(0::int) \<le> 2" "2 < height world55"
    "(0::int) \<le> 420" "(420::int) < 2 ^ 32"
    by (simp_all add: world55_def)
  show ?thesis
    using ok b setTileRaw_getTileRaw_roundtrip [OF ok b] by simp
qed

text \<open>
  C7. The concrete vectors of the tile codec. On a tile whose raw value is
  \<^verbatim>\<open>0xe009\<close> (57353), \<^verbatim>\<open>setTileProp(entityType, 5)\<close> leaves the raw value
  \<^verbatim>\<open>0xe005\<close> (57349); on a tile whose raw value is \<^verbatim>\<open>0x20000\<close> (131072),
  \<^verbatim>\<open>getTileProp(terrain)\<close> returns 2; on a tile whose raw value is \<^verbatim>\<open>0xa\<close>,
  \<^verbatim>\<open>getTileProp(entityType)\<close> returns 10.
\<close>

theorem tile_codec_vectors:
  assumes "getTileRaw w x1 y1 = Number 57353"
    and "getTileRaw w x2 y2 = Number 131072"
    and "getTileRaw w x3 y3 = Number 10"
  shows "getTileRaw (setTileProp w x1 y1 entityType (Number 5)) x1 y1 = Number 57349
    \<and> getTileProp w x2 y2 terrain = Number 2
    \<and> getTileProp w x3 y3 entityType = Number 10"
proof -
  have "setBitValue (Number 57353) entityType (Number 5) = Number 57349"
    by (simp add: tile_eval)
  then have "getTileRaw (setTileProp w x1 y1 entityType (Number 5)) x1 y1 = Number 57349"
    by (simp add: getTileRaw_setTileProp [OF assms(1)] ToUint32_def)
  moreover have "getTileProp w x2 y2 terrain = Number 2"
    by (simp add: getTileProp_def assms(2) getBitValue_def js_ushr_def js_and_def
        shiftCount_def ToInt32_def ToUint32_def)
  moreover have "getTileProp w x3 y3 entityType = Number 10"
    by (simp add: getTileProp_def assms(3) getBitValue_def js_ushr_def js_and_def
        shiftCount_def ToInt32_def ToUint32_def)
  ultimately show ?thesis
    by simp
qed

text \<open>The three tiles of the tests: \<open>(3, 3)\<close>, \<open>(4, 4)\<close> and \<open>(3, 4)\<close> of \<open>world55t\<close>.\<close>

theorem tile_codec_vectors_witness:
  "getTileRaw world55t 3 3 = Number 57353
    \<and> getTileRaw world55t 4 4 = Number 131072
    \<and> getTileRaw world55t 3 4 = Number 10
    \<and> getTileRaw (setTileProp world55t 3 3 entityType (Number 5)) 3 3 = Number 57349
    \<and> getTileProp world55t 4 4 terrain = Number 2
    \<and> getTileProp world55t 3 4 entityType = Number 10"
proof -
  have h: "getTileRaw world55t 3 3 = Number 57353"
    "getTileRaw world55t 4 4 = Number 131072"
    "getTileRaw world55t 3 4 = Number 10"
    by (simp_all add: world55t_def world55_def tile_eval)
  show ?thesis
    using h tile_codec_vectors [OF h] by simp
qed

lemma flat_index_cell:
  fixes x y wd ht :: int
  assumes "0 \<le> wd" "wd \<le> x" "0 \<le> y * wd + x" "y * wd + x < wd * ht"
  shows "0 < wd" "0 \<le> (y * wd + x) mod wd" "(y * wd + x) mod wd < wd"
    "0 \<le> (y * wd + x) div wd" "(y * wd + x) div wd < ht" "y < (y * wd + x) div wd"
    "((y * wd + x) div wd) * wd + (y * wd + x) mod wd = y * wd + x"
proof -
  show pos: "0 < wd"
  proof (rule ccontr)
    assume "\<not> 0 < wd"
    then have "wd = 0" using assms(1) by simp
    then show False using assms(3,4) by simp
  qed
  show "0 \<le> (y * wd + x) mod wd" "(y * wd + x) mod wd < wd"
    using pos by simp_all
  show "0 \<le> (y * wd + x) div wd"
    using pos assms(3) by (simp only: pos_imp_zdiv_nonneg_iff)
  show "(y * wd + x) div wd < ht"
  proof (rule ccontr)
    assume "\<not> (y * wd + x) div wd < ht"
    then have "ht * wd \<le> ((y * wd + x) div wd) * wd"
      using pos by (intro mult_right_mono) auto
    also have "\<dots> \<le> ((y * wd + x) div wd) * wd + (y * wd + x) mod wd"
      using pos by simp
    also have "\<dots> = y * wd + x"
      by (rule div_mult_mod_eq)
    finally show False
      using assms(4) by (simp add: mult.commute)
  qed
  have "(y * wd + x) div wd = y + x div wd"
    using pos by simp
  moreover have "1 \<le> x div wd"
    using zdiv_mono1 [OF assms(2) pos] pos by simp
  ultimately show "y < (y * wd + x) div wd"
    by simp
  show "((y * wd + x) div wd) * wd + (y * wd + x) mod wd = y * wd + x"
    by (rule div_mult_mod_eq)
qed

text \<open>
  C9. \<^verbatim>\<open>getTileRaw\<close> and \<^verbatim>\<open>setTileRaw\<close> do not check their coordinates. In a world
  whose buffer has the size the constructor gives it: for \<open>x \<ge> width\<close> with the flat index
  \<open>i = y * width + x\<close> inside \<open>[0, width * height)\<close>, the read is defined and is the tile of
  the in-bounds cell \<open>(i mod width, i div width)\<close>, whose row \<open>i div width\<close> comes after
  \<open>y\<close>, and the write overwrites that cell; for a flat index outside
  \<open>[0, width * height)\<close> the read yields \<^verbatim>\<open>undefined\<close> and the write leaves the world
  as it is. Neither function has an error among its results.
\<close>

theorem tile_access_unchecked:
  assumes "World_ok w"
  shows "(width w \<le> x \<and> 0 \<le> y * width w + x \<and> y * width w + x < width w * height w \<longrightarrow>
      (let i = y * width w + x; x' = i mod width w; y' = i div width w
       in 0 \<le> x' \<and> x' < width w \<and> 0 \<le> y' \<and> y' < height w \<and> y < y'
          \<and> y' * width w + x' = i
          \<and> getTileRaw w x y \<noteq> Undefined
          \<and> getTileRaw w x y = getTileRaw w x' y'
          \<and> setTileRaw w x y value = setTileRaw w x' y' value
          \<and> getTileRaw (setTileRaw w x y value) x' y' = Number (uint (ToUint32 value))))
    \<and> (\<not> (0 \<le> y * width w + x \<and> y * width w + x < width w * height w) \<longrightarrow>
          getTileRaw w x y = Undefined \<and> setTileRaw w x y value = w)"
proof -
  let ?i = "y * width w + x"
  have len: "Uint32Array_length (data w) = width w * height w"
    by (rule Uint32Array_length_World [OF assms])
  have inside: ?thesis if "0 \<le> ?i" "?i < width w * height w"
  proof (cases "width w \<le> x")
    case False
    with that show ?thesis by simp
  next
    case True
    have wd: "0 \<le> width w"
      using assms by (simp add: World_ok_def)
    note cell = flat_index_cell [OF wd True that]
    let ?x' = "?i mod width w" and ?y' = "?i div width w"
    have same: "?y' * width w + ?x' = ?i"
      by (rule cell(7))
    have "getTileRaw w x y \<noteq> Undefined"
      using that by (simp add: getTileRaw_def Uint32Array_get_def len Let_def)
    moreover have "getTileRaw w x y = getTileRaw w ?x' ?y'"
      by (simp only: getTileRaw_def same)
    moreover have "setTileRaw w x y value = setTileRaw w ?x' ?y' value"
      by (simp only: setTileRaw_def same)
    moreover have "getTileRaw (setTileRaw w x y value) ?x' ?y' = Number (uint (ToUint32 value))"
    proof -
      have "getTileRaw (setTileRaw w ?x' ?y' value) ?x' ?y' = Number (uint (ToUint32 value))"
        by (rule getTileRaw_setTileRaw_same [OF assms cell(2,3,4,5)])
      then show ?thesis
        by (simp only: setTileRaw_def same)
    qed
    ultimately show ?thesis
      using that cell same by (simp only: Let_def) simp
  qed
  have outside: ?thesis if "\<not> (0 \<le> ?i \<and> ?i < width w * height w)"
  proof -
    have "getTileRaw w x y = Undefined"
      using that by (auto simp add: getTileRaw_def Uint32Array_get_def len)
    moreover have "setTileRaw w x y value = w"
      using that by (auto simp add: setTileRaw_def Uint32Array_set_def len)
    ultimately show ?thesis
      using that by simp
  qed
  from inside outside show ?thesis
    by blast
qed

text \<open>
  In \<open>world55t\<close> the coordinate \<open>(8, 2)\<close> has the flat index 18 of the cell \<open>(3, 3)\<close>,
  and \<open>(30, 0)\<close> has the flat index 30, beyond the 25 tiles.
\<close>

theorem tile_access_unchecked_witness:
  "World_ok world55t
    \<and> width world55t \<le> 8 \<and> 0 \<le> 2 * width world55t + 8
    \<and> 2 * width world55t + 8 < width world55t * height world55t
    \<and> (2 * width world55t + 8) mod width world55t = 3
    \<and> (2 * width world55t + 8) div width world55t = 3
    \<and> getTileRaw world55t 8 2 = Number 57353
    \<and> getTileRaw world55t 8 2 = getTileRaw world55t 3 3
    \<and> setTileRaw world55t 8 2 (Number 7) = setTileRaw world55t 3 3 (Number 7)
    \<and> getTileRaw (setTileRaw world55t 8 2 (Number 7)) 3 3 = Number 7
    \<and> \<not> (0 \<le> 0 * width world55t + 30 \<and> 0 * width world55t + 30 < width world55t * height world55t)
    \<and> getTileRaw world55t 30 0 = Undefined
    \<and> setTileRaw world55t 30 0 (Number 7) = world55t"
proof -
  have ok: "World_ok world55t"
    by (rule World_ok_world55t)
  have w: "width world55t = 5" "height world55t = 5"
    by (simp_all add: world55t_def world55_def setTileRaw_def)
  have v: "getTileRaw world55t 8 2 = Number 57353"
    by (simp add: world55t_def world55_def tile_eval)
  have a: "width world55t \<le> 8" "0 \<le> 2 * width world55t + 8"
    "2 * width world55t + 8 < width world55t * height world55t"
    "(2 * width world55t + 8) mod width world55t = 3"
    "(2 * width world55t + 8) div width world55t = 3"
    "\<not> (0 \<le> 0 * width world55t + 30
        \<and> 0 * width world55t + 30 < width world55t * height world55t)"
    by (simp_all add: w)
  have c: "getTileRaw world55t 8 2 = getTileRaw world55t 3 3"
    "setTileRaw world55t 8 2 (Number 7) = setTileRaw world55t 3 3 (Number 7)"
    "getTileRaw (setTileRaw world55t 8 2 (Number 7)) 3 3 = Number 7"
    using tile_access_unchecked [OF ok, of 8 2 "Number 7"]
    by (auto simp add: w Let_def ToUint32_def)
  have d: "getTileRaw world55t 30 0 = Undefined" "setTileRaw world55t 30 0 (Number 7) = world55t"
    using tile_access_unchecked [OF ok, of 30 0 "Number 7"]
    by (simp_all add: w)
  show ?thesis
    using ok a v c d by blast
qed

section \<open>The constructor\<close>

lemma World_constructor_None:
  assumes "0 \<le> wd * ht" "wd * ht * 4 \<le> m"
  shows "World_constructor m wd ht es None =
    Inr \<lparr>width = wd, height = ht, data = new_ArrayBuffer (nat (wd * ht * 4)),
         entities = (case es of Some xs \<Rightarrow> xs | None \<Rightarrow> []), entityLayers = []\<rparr>"
  using assms
  by (simp add: World_constructor_def ArrayBuffer_constructor_def Let_def byteLength_def
      new_ArrayBuffer_def mult.commute)

lemma World_constructor_too_large:
  assumes "m < wd * ht * 4"
  shows "World_constructor m wd ht es None = Inl RangeError"
  using assms by (simp add: World_constructor_def ArrayBuffer_constructor_def Let_def)

lemma World_constructor_negative:
  assumes "wd * ht < 0"
  shows "World_constructor m wd ht es None = Inl RangeError"
  using assms
  by (simp add: World_constructor_def ArrayBuffer_constructor_def Let_def mult.commute)

lemma World_constructor_Some:
  "World_constructor m wd ht es (Some buf) =
    (if byteLength buf \<noteq> wd * ht * 4 then Inl SizeMismatch
     else Inr \<lparr>width = wd, height = ht, data = buf,
               entities = (case es of Some xs \<Rightarrow> xs | None \<Rightarrow> []), entityLayers = []\<rparr>)"
  by (simp add: World_constructor_def Let_def)

lemma World_constructor_SizeMismatch:
  "World_constructor m wd ht es worldData = Inl SizeMismatch
     \<longleftrightarrow> (\<exists>buf. worldData = Some buf \<and> byteLength buf \<noteq> wd * ht * 4)"
proof (cases worldData)
  case None
  then show ?thesis
    by (simp add: World_constructor_def ArrayBuffer_constructor_def Let_def)
next
  case (Some buf)
  then show ?thesis
    by (simp add: World_constructor_Some)
qed

lemma World_constructor_ok:
  assumes "0 \<le> wd" "0 \<le> ht" "World_constructor m wd ht es worldData = Inr w"
  shows "World_ok w"
proof (cases worldData)
  case None
  with assms(3) show ?thesis
    using assms(1,2)
    by (auto simp add: World_constructor_def ArrayBuffer_constructor_def Let_def World_ok_def
        byteLength_def new_ArrayBuffer_def split: if_splits)
next
  case (Some buf)
  with assms show ?thesis
    by (auto simp add: World_constructor_Some World_ok_def split: if_splits)
qed

lemma World_constructor_world55:
  "100 \<le> m \<Longrightarrow> World_constructor m 5 5 None None = Inr world55"
  by (simp add: World_constructor_None world55_def)

text \<open>
  A world of 65536 by 65536 tiles asks for \<open>2^34\<close> bytes: on a host that allocates up
  to \<open>2^31 - 1\<close> bytes the constructor throws the \<^verbatim>\<open>RangeError\<close> of the allocation.
\<close>

lemma World_constructor_65536:
  "World_constructor 2147483647 65536 65536 None None = Inl RangeError"
  by (simp add: World_constructor_too_large)

text \<open>
  C3. For dimensions \<open>wd\<close> and \<open>ht\<close> that are not negative and whose buffer of
  \<open>wd * ht * 4\<close> bytes the host can allocate: constructing a world without a buffer
  succeeds with a buffer of exactly \<open>wd * ht * 4\<close> bytes, all zero; with a supplied
  buffer whose byte length is not \<open>wd * ht * 4\<close> the constructor fails with
  \<open>SizeMismatch\<close>; a supplied buffer of exactly \<open>wd * ht * 4\<close> bytes is accepted and is
  the world's buffer as it is. The constructor fails in no other case, and its only
  error of its own is \<open>SizeMismatch\<close>: the size of a supplied buffer is all that it
  validates.
\<close>

theorem World_constructor_buffer:
  assumes "0 \<le> wd" "0 \<le> ht" "wd * ht * 4 \<le> m"
  shows "(\<exists>w. (World_constructor m wd ht es None :: error + 'q World) = Inr w
            \<and> width w = wd \<and> height w = ht
            \<and> byteLength (data w) = wd * ht * 4
            \<and> data w = replicate (nat (wd * ht * 4)) 0)
    \<and> (\<forall>buf. byteLength buf \<noteq> wd * ht * 4 \<longrightarrow>
          (World_constructor m wd ht es (Some buf) :: error + 'q World) = Inl SizeMismatch)
    \<and> (\<forall>buf. byteLength buf = wd * ht * 4 \<longrightarrow>
          (\<exists>w. (World_constructor m wd ht es (Some buf) :: error + 'q World) = Inr w
             \<and> width w = wd \<and> height w = ht \<and> data w = buf))
    \<and> (\<forall>worldData. (\<exists>e. (World_constructor m wd ht es worldData :: error + 'q World) = Inl e)
          \<longleftrightarrow> (\<exists>buf. worldData = Some buf \<and> byteLength buf \<noteq> wd * ht * 4))
    \<and> (\<forall>worldData e. (World_constructor m wd ht es worldData :: error + 'q World) = Inl e
          \<longrightarrow> e = SizeMismatch)"
proof -
  have nn: "0 \<le> wd * ht"
    using assms by simp
  have none: "\<exists>w. (World_constructor m wd ht es None :: error + 'q World) = Inr w
            \<and> width w = wd \<and> height w = ht
            \<and> byteLength (data w) = wd * ht * 4
            \<and> data w = replicate (nat (wd * ht * 4)) 0"
    using nn
    by (simp add: World_constructor_None [OF nn assms(3)] byteLength_def new_ArrayBuffer_def)
  have bad: "(World_constructor m wd ht es (Some buf) :: error + 'q World) = Inl SizeMismatch"
    if "byteLength buf \<noteq> wd * ht * 4" for buf
    using that by (simp add: World_constructor_Some)
  have good: "\<exists>w. (World_constructor m wd ht es (Some buf) :: error + 'q World) = Inr w
             \<and> width w = wd \<and> height w = ht \<and> data w = buf"
    if "byteLength buf = wd * ht * 4" for buf
    using that by (simp add: World_constructor_Some)
  have only: "(\<exists>e. (World_constructor m wd ht es worldData :: error + 'q World) = Inl e)
          \<longleftrightarrow> (\<exists>buf. worldData = Some buf \<and> byteLength buf \<noteq> wd * ht * 4)" for worldData
    by (cases worldData)
      (simp_all add: World_constructor_None [OF nn assms(3)] World_constructor_Some)
  have own: "e = SizeMismatch"
    if "(World_constructor m wd ht es worldData :: error + 'q World) = Inl e" for worldData e
  proof (cases worldData)
    case None
    with that show ?thesis
      by (simp add: World_constructor_None [OF nn assms(3)])
  next
    case (Some buf)
    with that show ?thesis
      by (simp add: World_constructor_Some split: if_splits)
  qed
  from none bad good only own show ?thesis
    by blast
qed

text \<open>
  The cases of the tests, on a host that allocates up to \<open>2^31 - 1\<close> bytes:
  \<^verbatim>\<open>new World(64, 64)\<close> has 16384 bytes, a buffer of 99 bytes is refused for a world of
  five by five tiles, and one of 100 bytes is taken.
\<close>

theorem World_constructor_buffer_witness:
  "(0::int) \<le> 64 \<and> (0::int) \<le> 5
    \<and> (64::int) * 64 * 4 \<le> 2147483647 \<and> (5::int) * 5 * 4 \<le> 2147483647
    \<and> (\<exists>w. (World_constructor 2147483647 64 64 None None :: error + LinearIndex World) = Inr w
          \<and> byteLength (data w) = 16384 \<and> data w = replicate 16384 0)
    \<and> byteLength (replicate 99 0) \<noteq> 5 * 5 * 4
    \<and> (World_constructor 2147483647 5 5 None (Some (replicate 99 0))
          :: error + LinearIndex World) = Inl SizeMismatch
    \<and> byteLength (replicate 100 7) = 5 * 5 * 4
    \<and> (\<exists>w. (World_constructor 2147483647 5 5 None (Some (replicate 100 7))
          :: error + LinearIndex World) = Inr w \<and> data w = replicate 100 7)"
proof -
  have h: "(0::int) \<le> 64" "(0::int) \<le> 5"
    by simp_all
  have m: "(64::int) * 64 * 4 \<le> 2147483647" "(5::int) * 5 * 4 \<le> 2147483647"
    by simp_all
  have l: "byteLength (replicate 99 0) \<noteq> 5 * 5 * 4" "byteLength (replicate 100 7) = 5 * 5 * 4"
    by (simp_all add: byteLength_def)
  note big = World_constructor_buffer [OF h(1) h(1) m(1), of None, where ?'q = LinearIndex]
  note small = World_constructor_buffer [OF h(2) h(2) m(2), of None, where ?'q = LinearIndex]
  have "\<exists>w. (World_constructor 2147483647 64 64 None None :: error + LinearIndex World) = Inr w
          \<and> byteLength (data w) = 16384 \<and> data w = replicate 16384 0"
    using big by auto
  moreover have "(World_constructor 2147483647 5 5 None (Some (replicate 99 0))
          :: error + LinearIndex World) = Inl SizeMismatch"
    using small l(1) by blast
  moreover have "\<exists>w. (World_constructor 2147483647 5 5 None (Some (replicate 100 7))
          :: error + LinearIndex World) = Inr w \<and> data w = replicate 100 7"
    using small l(2) by blast
  ultimately show ?thesis
    using h m l by blast
qed

section \<open>Entities and layers\<close>

lemma indexOf_ge: "- 1 \<le> indexOf xs a"
  by (induction xs) (auto simp add: Let_def)

lemma indexOf_notin: "a \<notin> set xs \<Longrightarrow> indexOf xs a = - 1"
  by (induction xs) (auto simp add: Let_def)

lemma indexOf_in: "a \<in> set xs \<Longrightarrow> 0 \<le> indexOf xs a"
proof (induction xs)
  case Nil
  then show ?case by simp
next
  case (Cons x xs)
  then show ?case
    using indexOf_ge [of xs a] by (auto simp add: Let_def)
qed

lemma splice1_indexOf: "a \<in> set xs \<Longrightarrow> splice1 xs (indexOf xs a) = remove1 a xs"
proof (induction xs)
  case Nil
  then show ?case by simp
next
  case (Cons x xs)
  show ?case
  proof (cases "x = a")
    case True
    then show ?thesis by (simp add: splice1_def)
  next
    case False
    with Cons.prems have in_xs: "a \<in> set xs" by simp
    then have nn: "0 \<le> indexOf xs a" by (rule indexOf_in)
    then have "nat (indexOf xs a + 1) = Suc (nat (indexOf xs a))"
      by simp
    with False nn Cons.IH [OF in_xs] show ?thesis
      by (simp add: splice1_def Let_def)
  qed
qed

lemma remove_World_entities:
  "World.entities (snd (remove_World qt w e lid)) = remove1 e (World.entities w)"
proof (cases "e \<in> set (World.entities w)")
  case True
  then have "0 \<le> indexOf (World.entities w) e"
    by (rule indexOf_in)
  with True show ?thesis
    by (simp add: remove_World_def Let_def splice1_indexOf split: option.split)
next
  case False
  then show ?thesis
    by (simp add: remove_World_def Let_def indexOf_notin remove1_idem split: option.split)
qed

lemma remove_World_missing_layer:
  assumes "map_of (entityLayers w) (layerIdOrDefault lid) = None"
  shows "fst (remove_World qt w e lid) = None"
    "entityLayers (snd (remove_World qt w e lid)) = entityLayers w"
    "data (snd (remove_World qt w e lid)) = data w"
  using assms by (simp_all add: remove_World_def Let_def)

lemma remove_World_layer:
  assumes "map_of (entityLayers w) (layerIdOrDefault lid) = Some l"
  shows "fst (remove_World qt w e lid) = Some e"
    "entityLayers (snd (remove_World qt w e lid)) =
       AList.update (layerIdOrDefault lid)
         \<lparr>Layer.entities = Set_delete e (Layer.entities l),
          qtree = snd (remove_qt qt e (qtree l))\<rparr> (entityLayers w)"
  using assms by (simp_all add: remove_World_def Let_def)

lemma insert_World_entities:
  "World.entities (insert_World qt w e lid) = World.entities w @ [e]"
  by (simp add: insert_World_def Let_def split: option.split prod.split)

lemma insert_World_layer:
  assumes "map_of (entityLayers w) (layerIdOrDefault lid) = Some l"
  shows "entityLayers (insert_World qt w e lid) =
       AList.update (layerIdOrDefault lid)
         \<lparr>Layer.entities = Set_add e (Layer.entities l),
          qtree = snd (insert_qt qt e (qtree l))\<rparr> (entityLayers w)"
  using assms by (simp add: insert_World_def Let_def)

lemma World_ok_insert_World: "World_ok w \<Longrightarrow> World_ok (insert_World qt w e lid)"
  by (simp add: World_ok_def insert_World_def Let_def split: option.split prod.split)

lemma World_ok_remove_World: "World_ok w \<Longrightarrow> World_ok (snd (remove_World qt w e lid))"
  by (simp add: World_ok_def remove_World_def Let_def split: option.split)

lemmas entity_eval = insert_World_def remove_World_def query_def nearby_def linearIndex_def
  layerIdOrDefault_def DEFAULT_LAYER_ID_def quadtreeCapacity_def Set_add_def Set_delete_def
  Set_size_def splice1_def posAt11_def world55_def Let_def

lemma worldA1_eq:
  "worldA1 = world55\<lparr>entityLayers := [(''A'', layerA1)], World.entities := [e0]\<rparr>"
  by (simp add: worldA1_def layerA1_def qt0_def e0_def entity_eval)

text \<open>
  C6. For every range and every layer id other than \<^verbatim>\<open>"ALL"\<close> under which the world
  has no layer, \<^verbatim>\<open>query\<close> returns the empty list and so does \<^verbatim>\<open>nearby\<close>, for every
  entity and radius. Both are functions without an error among their results.
\<close>

theorem query_missing_layer:
  assumes "layerIdOrDefault lid \<noteq> ''ALL''"
    and "map_of (entityLayers w) (layerIdOrDefault lid) = None"
  shows "query qt w range' lid = [] \<and> nearby qt pos w e radius lid = []"
  using assms by (simp add: nearby_def query_def Let_def)

text \<open>
  \<open>worldA1\<close> has the layer \<open>A\<close> alone: a query of layer \<open>B\<close> is empty, where the same
  query of layer \<open>A\<close> finds the entity.
\<close>

theorem query_missing_layer_witness:
  "layerIdOrDefault (Some ''B'') \<noteq> ''ALL''
    \<and> map_of (entityLayers worldA1) (layerIdOrDefault (Some ''B'')) = None
    \<and> query qt0 worldA1 (Rectangle 1 1 1 1) (Some ''B'') = []
    \<and> nearby qt0 posAt11 worldA1 e0 1 (Some ''B'') = []
    \<and> query qt0 worldA1 (Rectangle 1 1 1 1) (Some ''A'') = [e0]"
proof -
  have h: "layerIdOrDefault (Some ''B'') \<noteq> ''ALL''"
    "map_of (entityLayers worldA1) (layerIdOrDefault (Some ''B'')) = None"
    by (simp_all add: worldA1_eq layerIdOrDefault_def)
  have "query qt0 worldA1 (Rectangle 1 1 1 1) (Some ''A'') = [e0]"
    by (simp add: worldA1_eq layerA1_def qt0_def e0_def entity_eval)
  with h query_missing_layer [OF h, of qt0 "Rectangle 1 1 1 1" posAt11 e0 1] show ?thesis
    by simp
qed

text \<open>
  C8. \<^verbatim>\<open>remove\<close> is not atomic where it fails. For every entity that occurs in the
  global list \<^verbatim>\<open>entities\<close> and every layer id under which the world has no layer,
  \<^verbatim>\<open>remove(entity, layerId)\<close> returns \<^verbatim>\<open>null\<close>, and the world it leaves is not the
  world it found: the first occurrence of the entity is gone from the global list.
\<close>

theorem remove_World_not_atomic:
  assumes "e \<in> set (World.entities w)"
    and "map_of (entityLayers w) (layerIdOrDefault lid) = None"
  shows "fst (remove_World qt w e lid) = None
    \<and> World.entities (snd (remove_World qt w e lid)) = remove1 e (World.entities w)
    \<and> length (World.entities (snd (remove_World qt w e lid))) + 1 = length (World.entities w)
    \<and> snd (remove_World qt w e lid) \<noteq> w
    \<and> (\<exists>ys zs. World.entities w = ys @ e # zs \<and> e \<notin> set ys
          \<and> World.entities (snd (remove_World qt w e lid)) = ys @ zs)"
proof -
  let ?w' = "snd (remove_World qt w e lid)"
  have ents: "World.entities ?w' = remove1 e (World.entities w)"
    by (rule remove_World_entities)
  have len: "length (World.entities ?w') + 1 = length (World.entities w)"
    using assms(1) by (simp add: ents length_remove1) (metis length_pos_if_in_set Suc_pred)
  then have ne: "?w' \<noteq> w"
    by auto
  obtain ys zs where split: "World.entities w = ys @ e # zs" "e \<notin> set ys"
    using assms(1) by (meson split_list_first)
  then have "World.entities ?w' = ys @ zs"
    by (simp add: ents remove1_append)
  with split have "\<exists>ys zs. World.entities w = ys @ e # zs \<and> e \<notin> set ys
          \<and> World.entities ?w' = ys @ zs"
    by blast
  with remove_World_missing_layer(1) [OF assms(2)] ents len ne show ?thesis
    by blast
qed

text \<open>
  In \<open>worldA1\<close> the entity is in the global list and there is no layer \<open>B\<close>.
\<close>

theorem remove_World_not_atomic_witness:
  "e0 \<in> set (World.entities worldA1)
    \<and> map_of (entityLayers worldA1) (layerIdOrDefault (Some ''B'')) = None
    \<and> World.entities worldA1 = [e0]
    \<and> fst (remove_World qt0 worldA1 e0 (Some ''B'')) = None
    \<and> World.entities (snd (remove_World qt0 worldA1 e0 (Some ''B''))) = []
    \<and> snd (remove_World qt0 worldA1 e0 (Some ''B'')) \<noteq> worldA1"
proof -
  have h: "e0 \<in> set (World.entities worldA1)"
    "map_of (entityLayers worldA1) (layerIdOrDefault (Some ''B'')) = None"
    by (simp_all add: worldA1_eq layerIdOrDefault_def)
  have g: "World.entities worldA1 = [e0]"
    by (simp add: worldA1_eq)
  show ?thesis
    using h g remove_World_not_atomic [OF h, of qt0] by simp
qed

text \<open>
  C5. \<^verbatim>\<open>remove(entity, layerId)\<close> takes the first occurrence of the entity out of the
  global list. Where the world has no layer under the id it returns \<^verbatim>\<open>null\<close> and
  leaves the layers as they are. Where the layer exists it returns the entity, takes
  it out of the layer's membership set and hands the layer's index to the index's own
  \<^verbatim>\<open>remove\<close>, whose result it does not look at; no other layer changes. This is so
  also for an entity that is not in the layer: the membership set stays as it was and
  the result is still the entity, not \<^verbatim>\<open>null\<close>. The function has no error among its
  results.
\<close>

theorem remove_World_result:
  "World.entities (snd (remove_World qt w e lid)) = remove1 e (World.entities w)
   \<and> (map_of (entityLayers w) (layerIdOrDefault lid) = None \<longrightarrow>
        fst (remove_World qt w e lid) = None
        \<and> entityLayers (snd (remove_World qt w e lid)) = entityLayers w)
   \<and> (\<forall>l. map_of (entityLayers w) (layerIdOrDefault lid) = Some l \<longrightarrow>
        fst (remove_World qt w e lid) = Some e
        \<and> map_of (entityLayers (snd (remove_World qt w e lid))) (layerIdOrDefault lid) =
            Some \<lparr>Layer.entities = Set_delete e (Layer.entities l),
                  qtree = snd (remove_qt qt e (qtree l))\<rparr>
        \<and> set (Set_delete e (Layer.entities l)) = set (Layer.entities l) - {e}
        \<and> (e \<notin> set (Layer.entities l) \<longrightarrow>
             Set_delete e (Layer.entities l) = Layer.entities l)
        \<and> (\<forall>k. k \<noteq> layerIdOrDefault lid \<longrightarrow>
             map_of (entityLayers (snd (remove_World qt w e lid))) k
               = map_of (entityLayers w) k))"
proof -
  let ?R = "remove_World qt w e lid"
  let ?L = "layerIdOrDefault lid"
  have ents: "World.entities (snd ?R) = remove1 e (World.entities w)"
    by (rule remove_World_entities)
  have missing: "fst ?R = None \<and> entityLayers (snd ?R) = entityLayers w"
    if "map_of (entityLayers w) ?L = None"
    using remove_World_missing_layer [OF that] by simp
  have present: "fst ?R = Some e
        \<and> map_of (entityLayers (snd ?R)) ?L =
            Some \<lparr>Layer.entities = Set_delete e (Layer.entities l),
                  qtree = snd (remove_qt qt e (qtree l))\<rparr>
        \<and> set (Set_delete e (Layer.entities l)) = set (Layer.entities l) - {e}
        \<and> (e \<notin> set (Layer.entities l) \<longrightarrow>
             Set_delete e (Layer.entities l) = Layer.entities l)
        \<and> (\<forall>k. k \<noteq> ?L \<longrightarrow> map_of (entityLayers (snd ?R)) k = map_of (entityLayers w) k)"
    if "map_of (entityLayers w) ?L = Some l" for l
    using remove_World_layer [OF that, of qt e]
    by (simp add: update_conv' Set_delete_def)
  from ents missing present show ?thesis
    by blast
qed

text \<open>
  On \<open>worldA1\<close>: removing \<open>e0\<close> naming the missing layer \<open>B\<close>, removing it from its
  layer \<open>A\<close>, and removing \<open>e1\<close>, which is not in \<open>A\<close>, from \<open>A\<close>.
\<close>

theorem remove_World_result_witness:
  "map_of (entityLayers worldA1) (layerIdOrDefault (Some ''B'')) = None
   \<and> map_of (entityLayers worldA1) (layerIdOrDefault (Some ''A'')) = Some layerA1
   \<and> e1 \<notin> set (Layer.entities layerA1)
   \<and> ''B'' \<noteq> layerIdOrDefault (Some ''A'')
   \<and> World.entities worldA1 = [e0]
   \<and> fst (remove_World qt0 worldA1 e0 (Some ''B'')) = None
   \<and> fst (remove_World qt0 worldA1 e0 (Some ''A'')) = Some e0
   \<and> World.entities (snd (remove_World qt0 worldA1 e0 (Some ''A''))) = []
   \<and> map_of (entityLayers (snd (remove_World qt0 worldA1 e0 (Some ''A''))))
        (layerIdOrDefault (Some ''A'')) =
        Some \<lparr>Layer.entities = [],
              qtree = \<lparr>boundary = Rectangle (5 / 2) (5 / 2) (5 / 2) (5 / 2), capacity = 4,
                       points = []\<rparr>\<rparr>
   \<and> map_of (entityLayers (snd (remove_World qt0 worldA1 e0 (Some ''A'')))) ''B''
        = map_of (entityLayers worldA1) ''B''
   \<and> fst (remove_World qt0 worldA1 e1 (Some ''A'')) = Some e1
   \<and> map_of (entityLayers (snd (remove_World qt0 worldA1 e1 (Some ''A''))))
        (layerIdOrDefault (Some ''A'')) = Some layerA1"
proof -
  have h: "map_of (entityLayers worldA1) (layerIdOrDefault (Some ''B'')) = None"
    "map_of (entityLayers worldA1) (layerIdOrDefault (Some ''A'')) = Some layerA1"
    "e1 \<notin> set (Layer.entities layerA1)"
    "''B'' \<noteq> layerIdOrDefault (Some ''A'')"
    "World.entities worldA1 = [e0]"
    by (simp_all add: worldA1_eq layerIdOrDefault_def layerA1_def e0_def e1_def)
  note b = remove_World_result [of qt0 worldA1 e0 "Some ''B''"]
  note a = remove_World_result [of qt0 worldA1 e0 "Some ''A''"]
  note c = remove_World_result [of qt0 worldA1 e1 "Some ''A''"]
  have 1: "fst (remove_World qt0 worldA1 e0 (Some ''B'')) = None"
    using b h(1) by blast
  have 2: "fst (remove_World qt0 worldA1 e0 (Some ''A'')) = Some e0"
    using a h(2) by blast
  have 3: "World.entities (snd (remove_World qt0 worldA1 e0 (Some ''A''))) = []"
    using a [THEN conjunct1] by (simp add: h(5))
  have "map_of (entityLayers (snd (remove_World qt0 worldA1 e0 (Some ''A''))))
        (layerIdOrDefault (Some ''A'')) =
        Some \<lparr>Layer.entities = Set_delete e0 (Layer.entities layerA1),
              qtree = snd (remove_qt qt0 e0 (qtree layerA1))\<rparr>"
    using a h(2) by blast
  then have 4: "map_of (entityLayers (snd (remove_World qt0 worldA1 e0 (Some ''A''))))
        (layerIdOrDefault (Some ''A'')) =
        Some \<lparr>Layer.entities = [],
              qtree = \<lparr>boundary = Rectangle (5 / 2) (5 / 2) (5 / 2) (5 / 2), capacity = 4,
                       points = []\<rparr>\<rparr>"
    by (simp add: layerA1_def qt0_def linearIndex_def Set_delete_def)
  have 5: "map_of (entityLayers (snd (remove_World qt0 worldA1 e0 (Some ''A'')))) ''B''
        = map_of (entityLayers worldA1) ''B''"
    using a h(2,4) by blast
  have 6: "fst (remove_World qt0 worldA1 e1 (Some ''A'')) = Some e1"
    using c h(2) by blast
  have "map_of (entityLayers (snd (remove_World qt0 worldA1 e1 (Some ''A''))))
        (layerIdOrDefault (Some ''A'')) =
        Some \<lparr>Layer.entities = Set_delete e1 (Layer.entities layerA1),
              qtree = snd (remove_qt qt0 e1 (qtree layerA1))\<rparr>"
    using c h(2) by blast
  then have 7: "map_of (entityLayers (snd (remove_World qt0 worldA1 e1 (Some ''A''))))
        (layerIdOrDefault (Some ''A'')) = Some layerA1"
    by (simp add: layerA1_def qt0_def linearIndex_def Set_delete_def e0_def e1_def)
  from h 1 2 3 4 5 6 7 show ?thesis
    by blast
qed

text \<open>
  The entity \<open>e1\<close> is in no layer and not in the global list of \<open>worldA1\<close>, and the
  storage's own \<^verbatim>\<open>remove\<close> does not find it. \<^verbatim>\<open>remove(e1, "A")\<close> leaves the world as
  it is and returns \<open>e1\<close>: the result is not a "not found" one.
\<close>

theorem remove_World_absent_counterexample:
  "map_of (entityLayers worldA1) (layerIdOrDefault (Some ''A'')) = Some layerA1
   \<and> e1 \<notin> set (Layer.entities layerA1)
   \<and> fst (remove_qt qt0 e1 (qtree layerA1)) = None
   \<and> fst (remove_World qt0 worldA1 e1 (Some ''A'')) = Some e1
   \<and> fst (remove_World qt0 worldA1 e1 (Some ''A'')) \<noteq> None
   \<and> snd (remove_World qt0 worldA1 e1 (Some ''A'')) = worldA1"
  by (simp add: worldA1_eq layerA1_def qt0_def e0_def e1_def entity_eval)

text \<open>
  C10. For an entity \<open>e\<close> that is a member of the layer and occurs in the global list:
  \<^verbatim>\<open>insert(e, layerId)\<close> leaves the membership set as it is, so its size too, hands
  the layer's index to the index's \<^verbatim>\<open>insert\<close> once more and appends \<open>e\<close> to the global
  list, where it now occurs at least twice. One \<^verbatim>\<open>remove(e, layerId)\<close> then takes the
  first occurrence out of the global list: \<open>e\<close> still occurs there, while it is no
  longer a member of the layer.
\<close>

theorem insert_World_twice:
  assumes "map_of (entityLayers w) (layerIdOrDefault lid) = Some l"
    and "e \<in> set (Layer.entities l)"
    and "e \<in> set (World.entities w)"
  shows "map_of (entityLayers (insert_World qt w e lid)) (layerIdOrDefault lid) =
      Some \<lparr>Layer.entities = Layer.entities l, qtree = snd (insert_qt qt e (qtree l))\<rparr>
    \<and> Set_size (Set_add e (Layer.entities l)) = Set_size (Layer.entities l)
    \<and> World.entities (insert_World qt w e lid) = World.entities w @ [e]
    \<and> count_list (World.entities (insert_World qt w e lid)) e
        = count_list (World.entities w) e + 1
    \<and> 2 \<le> count_list (World.entities (insert_World qt w e lid)) e
    \<and> fst (remove_World qt (insert_World qt w e lid) e lid) = Some e
    \<and> World.entities (snd (remove_World qt (insert_World qt w e lid) e lid))
        = remove1 e (World.entities w) @ [e]
    \<and> e \<in> set (World.entities (snd (remove_World qt (insert_World qt w e lid) e lid)))
    \<and> map_of (entityLayers (snd (remove_World qt (insert_World qt w e lid) e lid)))
          (layerIdOrDefault lid) =
        Some \<lparr>Layer.entities = Set_delete e (Layer.entities l),
              qtree = snd (remove_qt qt e (snd (insert_qt qt e (qtree l))))\<rparr>
    \<and> e \<notin> set (Set_delete e (Layer.entities l))"
proof -
  let ?L = "layerIdOrDefault lid"
  let ?w' = "insert_World qt w e lid"
  let ?l' = "\<lparr>Layer.entities = Layer.entities l, qtree = snd (insert_qt qt e (qtree l))\<rparr>"
  have add: "Set_add e (Layer.entities l) = Layer.entities l"
    using assms(2) by (simp add: Set_add_def)
  have layer': "map_of (entityLayers ?w') ?L = Some ?l'"
    by (simp add: insert_World_layer [OF assms(1)] update_conv' add)
  have size: "Set_size (Set_add e (Layer.entities l)) = Set_size (Layer.entities l)"
    by (simp add: add)
  have ents': "World.entities ?w' = World.entities w @ [e]"
    by (rule insert_World_entities)
  have cnt: "count_list (World.entities ?w') e = count_list (World.entities w) e + 1"
    by (simp add: ents')
  have "count_list (World.entities w) e \<noteq> 0"
    using assms(3) by (simp add: count_list_0_iff)
  with cnt have two: "2 \<le> count_list (World.entities ?w') e"
    by simp
  have res: "fst (remove_World qt ?w' e lid) = Some e"
    by (rule remove_World_layer(1) [OF layer'])
  have ents'': "World.entities (snd (remove_World qt ?w' e lid)) = remove1 e (World.entities w) @ [e]"
    using assms(3) by (simp add: remove_World_entities ents' remove1_append)
  then have left: "e \<in> set (World.entities (snd (remove_World qt ?w' e lid)))"
    by simp
  have layer'': "map_of (entityLayers (snd (remove_World qt ?w' e lid))) ?L =
        Some \<lparr>Layer.entities = Set_delete e (Layer.entities l),
              qtree = snd (remove_qt qt e (snd (insert_qt qt e (qtree l))))\<rparr>"
    by (simp add: remove_World_layer(2) [OF layer'] update_conv')
  have gone: "e \<notin> set (Set_delete e (Layer.entities l))"
    by (simp add: Set_delete_def)
  from layer' size ents' cnt two res ents'' left layer'' gone show ?thesis
    by blast
qed

text \<open>In \<open>worldA1\<close> the entity \<open>e0\<close> has been inserted into the layer \<open>A\<close> once.\<close>

theorem insert_World_twice_witness:
  "map_of (entityLayers worldA1) (layerIdOrDefault (Some ''A'')) = Some layerA1
    \<and> e0 \<in> set (Layer.entities layerA1)
    \<and> e0 \<in> set (World.entities worldA1)
    \<and> World.entities worldA1 = [e0]
    \<and> World.entities (insert_World qt0 worldA1 e0 (Some ''A'')) = [e0, e0]
    \<and> map_of (entityLayers (insert_World qt0 worldA1 e0 (Some ''A'')))
          (layerIdOrDefault (Some ''A'')) =
        Some \<lparr>Layer.entities = [e0],
              qtree = \<lparr>boundary = Rectangle (5 / 2) (5 / 2) (5 / 2) (5 / 2), capacity = 4,
                       points = [e0, e0]\<rparr>\<rparr>
    \<and> fst (remove_World qt0 (insert_World qt0 worldA1 e0 (Some ''A'')) e0 (Some ''A''))
        = Some e0
    \<and> World.entities
         (snd (remove_World qt0 (insert_World qt0 worldA1 e0 (Some ''A'')) e0 (Some ''A'')))
        = [e0]
    \<and> map_of (entityLayers
         (snd (remove_World qt0 (insert_World qt0 worldA1 e0 (Some ''A'')) e0 (Some ''A''))))
          (layerIdOrDefault (Some ''A'')) =
        Some \<lparr>Layer.entities = [],
              qtree = \<lparr>boundary = Rectangle (5 / 2) (5 / 2) (5 / 2) (5 / 2), capacity = 4,
                       points = [e0]\<rparr>\<rparr>"
proof -
  have h: "map_of (entityLayers worldA1) (layerIdOrDefault (Some ''A'')) = Some layerA1"
    "e0 \<in> set (Layer.entities layerA1)"
    "e0 \<in> set (World.entities worldA1)"
    by (simp_all add: worldA1_eq layerIdOrDefault_def layerA1_def)
  have g: "World.entities worldA1 = [e0]"
    by (simp add: worldA1_eq)
  have q: "Layer.entities layerA1 = [e0]"
    "snd (insert_qt qt0 e0 (qtree layerA1)) =
       \<lparr>boundary = Rectangle (5 / 2) (5 / 2) (5 / 2) (5 / 2), capacity = 4, points = [e0, e0]\<rparr>"
    "snd (remove_qt qt0 e0 (snd (insert_qt qt0 e0 (qtree layerA1)))) =
       \<lparr>boundary = Rectangle (5 / 2) (5 / 2) (5 / 2) (5 / 2), capacity = 4, points = [e0]\<rparr>"
    "Set_delete e0 (Layer.entities layerA1) = []"
    by (simp_all add: layerA1_def qt0_def linearIndex_def posAt11_def Set_delete_def)
  note t = insert_World_twice [OF h, of qt0]
  note c1 = t [THEN conjunct1]
  note c3 = t [THEN conjunct2, THEN conjunct2, THEN conjunct1]
  note c6 = t [THEN conjunct2, THEN conjunct2, THEN conjunct2, THEN conjunct2, THEN conjunct2,
    THEN conjunct1]
  note c7 = t [THEN conjunct2, THEN conjunct2, THEN conjunct2, THEN conjunct2, THEN conjunct2,
    THEN conjunct2, THEN conjunct1]
  note c9 = t [THEN conjunct2, THEN conjunct2, THEN conjunct2, THEN conjunct2, THEN conjunct2,
    THEN conjunct2, THEN conjunct2, THEN conjunct2, THEN conjunct1]
  have a1: "map_of (entityLayers (insert_World qt0 worldA1 e0 (Some ''A'')))
          (layerIdOrDefault (Some ''A'')) =
        Some \<lparr>Layer.entities = [e0],
              qtree = \<lparr>boundary = Rectangle (5 / 2) (5 / 2) (5 / 2) (5 / 2), capacity = 4,
                       points = [e0, e0]\<rparr>\<rparr>"
    using c1 by (simp only: q)
  have a3: "World.entities (insert_World qt0 worldA1 e0 (Some ''A'')) = [e0, e0]"
    using c3 by (simp add: g)
  have a7: "World.entities
         (snd (remove_World qt0 (insert_World qt0 worldA1 e0 (Some ''A'')) e0 (Some ''A'')))
        = [e0]"
    using c7 by (simp add: g)
  have a9: "map_of (entityLayers
         (snd (remove_World qt0 (insert_World qt0 worldA1 e0 (Some ''A'')) e0 (Some ''A''))))
          (layerIdOrDefault (Some ''A'')) =
        Some \<lparr>Layer.entities = [],
              qtree = \<lparr>boundary = Rectangle (5 / 2) (5 / 2) (5 / 2) (5 / 2), capacity = 4,
                       points = [e0]\<rparr>\<rparr>"
    using c9 by (simp add: layerA1_def qt0_def linearIndex_def posAt11_def Set_delete_def)
  from h g a1 a3 c6 a7 a9 show ?thesis
    by blast
qed

text \<open>
  Membership of the layer alone is not enough. In \<open>worldA2\<close> the entity \<open>e0\<close> is a
  member of the layer \<open>A\<close> and the global list is empty, since a \<^verbatim>\<open>remove\<close> that named
  the missing layer \<open>B\<close> took it out. Inserting \<open>e0\<close> into \<open>A\<close> again gives a global list
  with one reference, and the \<^verbatim>\<open>remove\<close> after it leaves none.
\<close>

theorem insert_World_twice_counterexample:
  "map_option Layer.entities (map_of (entityLayers worldA2) (layerIdOrDefault (Some ''A'')))
      = Some [e0]
    \<and> World.entities worldA2 = []
    \<and> World.entities worldA3 = [e0]
    \<and> count_list (World.entities worldA3) e0 = 1
    \<and> World.entities worldA4 = []
    \<and> e0 \<notin> set (World.entities worldA4)"
proof -
  have 2: "worldA2 = worldA1\<lparr>World.entities := []\<rparr>"
    by (simp add: worldA2_def worldA1_eq layerA1_def qt0_def e0_def entity_eval)
  have 3: "World.entities worldA3 = [e0]"
    by (simp add: worldA3_def 2 insert_World_entities)
  have 4: "World.entities worldA4 = []"
    by (simp add: worldA4_def remove_World_entities 3)
  show ?thesis
    by (simp add: 2 3 4 worldA1_eq layerA1_def layerIdOrDefault_def)
qed

section \<open>Values beyond the width of a field\<close>

lemma sint_small:
  fixes w :: u32
  assumes "take_bit n w = w" "n < 32"
  shows "sint w = uint w"
proof (rule bit_eqI)
  fix k :: nat
  have hi: "\<not> bit w m" if "n \<le> m" for m
    using assms(1) that by (metis bit_take_bit_iff not_le)
  show "bit (sint w) k = bit (uint w) k"
    using hi [of 31] hi [of k] assms(2)
    by (auto simp add: bit_sint_iff bit_uint_iff dest: bit_imp_le_length)
qed

lemma excess_int:
  fixes v :: int
  assumes "a + b \<le> 32"
  shows "(word_of_int ((v div 2 ^ a) mod 2 ^ b) :: u32) = take_bit b (drop_bit a (word_of_int v))"
proof (rule bit_word_eqI)
  fix n :: nat
  assume "n < LENGTH(32)"
  have "(v div 2 ^ a) mod 2 ^ b = take_bit b (drop_bit a v)"
    by (simp add: take_bit_eq_mod drop_bit_eq_div)
  then show "bit (word_of_int ((v div 2 ^ a) mod 2 ^ b) :: u32) n
      = bit (take_bit b (drop_bit a (word_of_int v :: u32))) n"
    using assms by (auto simp add: bit_simps)
qed

lemma field_get_higher:
  fixes v t :: u32
  assumes "off + len + len' \<le> 32"
  shows "drop_bit (off + len) ((push_bit off v OR (t AND NOT (push_bit off (mask len))))
           AND push_bit (off + len) (mask len'))
       = drop_bit (off + len) (t AND push_bit (off + len) (mask len'))
           OR take_bit len' (drop_bit len v)"
proof (rule bit_word_eqI)
  fix n :: nat
  assume n: "n < LENGTH(32)"
  show "bit (drop_bit (off + len) ((push_bit off v OR (t AND NOT (push_bit off (mask len))))
           AND push_bit (off + len) (mask len'))) n
     = bit (drop_bit (off + len) (t AND push_bit (off + len) (mask len'))
           OR take_bit len' (drop_bit len v)) n"
    using assms n by (auto simp add: bit_simps ac_simps)
qed

lemma field_get_lower:
  fixes v t :: u32
  assumes "off' + len' \<le> off"
  shows "drop_bit off' ((push_bit off v OR (t AND NOT (push_bit off (mask len))))
           AND push_bit off' (mask len'))
       = drop_bit off' (t AND push_bit off' (mask len'))"
proof (rule bit_word_eqI)
  fix n :: nat
  assume n: "n < LENGTH(32)"
  show "bit (drop_bit off' ((push_bit off v OR (t AND NOT (push_bit off (mask len))))
           AND push_bit off' (mask len'))) n
     = bit (drop_bit off' (t AND push_bit off' (mask len'))) n"
    using assms n by (auto simp add: bit_simps)
qed

lemma higherField_offset:
  "higherField f = Some g \<Longrightarrow>
     offsetOf g = offsetOf f + length_bf (bitScheme f)
     \<and> offsetOf f + length_bf (bitScheme f) + length_bf (bitScheme g) \<le> 32
     \<and> length_bf (bitScheme g) < 32"
  by (cases f) (auto simp add: offsetOf_def)

lemma higherField_None:
  "higherField f = None \<Longrightarrow> p \<noteq> f \<Longrightarrow>
     offsetOf p + length_bf (bitScheme p) \<le> offsetOf f"
  by (cases f; cases p) (auto simp add: offsetOf_def)

text \<open>
  C4. \<^verbatim>\<open>setBitValue\<close> and \<^verbatim>\<open>setTileProp\<close> do not check the value against the width of
  the field, and have no error among their results. For every tile, field and integer
  \<open>v\<close>: the result is \<^verbatim>\<open>(v << offset) | (tile & ~mask)\<close> on 32 bits, and for an in-bounds
  coordinate that is what \<^verbatim>\<open>setTileProp\<close> stores. For a field with an adjacent higher
  field, the bits of \<open>v\<close> above the field's width are or-ed into that field: it then
  reads as its old value or-ed with \<open>(v div 2 ^ length) mod 2 ^ length'\<close>, where
  \<open>length'\<close> is the width of the higher field. Above \<open>foodTrail\<close> there is no field: no other field changes
  when \<open>foodTrail\<close> is written.
\<close>

theorem setBitValue_unchecked:
  "setBitValue tile field (Number v) =
      Number (sint (push_bit (offsetOf field) (word_of_int v :: u32)
        OR (ToInt32 tile AND NOT (word_of_int (mask_bf (bitScheme field))))))
   \<and> (World_ok w \<and> 0 \<le> x \<and> x < width w \<and> 0 \<le> y \<and> y < height w \<longrightarrow>
        getTileRaw (setTileProp w x y field (Number v)) x y =
          Number (uint (push_bit (offsetOf field) (word_of_int v :: u32)
            OR (ToInt32 (getTileRaw w x y) AND NOT (word_of_int (mask_bf (bitScheme field)))))))
   \<and> (\<forall>g. higherField field = Some g \<longrightarrow>
        getBitValue (setBitValue tile field (Number v)) g =
          js_or (getBitValue tile g)
            (Number ((v div 2 ^ length_bf (bitScheme field)) mod 2 ^ length_bf (bitScheme g))))
   \<and> (higherField field = None \<longrightarrow>
        (\<forall>p. p \<noteq> field \<longrightarrow>
           getBitValue (setBitValue tile field (Number v)) p = getBitValue tile p))"
proof -
  let ?off = "offsetOf field"
  let ?len = "length_bf (bitScheme field)"
  let ?V = "word_of_int v :: u32"
  let ?T = "ToInt32 tile"
  let ?W = "\<lambda>t. push_bit ?off ?V OR (t AND NOT (push_bit ?off (mask ?len)))"
  have set: "setBitValue t field (Number v) = Number (sint (?W (ToInt32 t)))" for t
    by (simp add: setBitValue_word ToInt32_def)
  have formula: "setBitValue tile field (Number v) =
      Number (sint (push_bit ?off ?V OR (?T AND NOT (word_of_int (mask_bf (bitScheme field))))))"
    by (simp only: set mask_word)
  have stored: "getTileRaw (setTileProp w x y field (Number v)) x y =
      Number (uint (push_bit ?off ?V
        OR (ToInt32 (getTileRaw w x y) AND NOT (word_of_int (mask_bf (bitScheme field))))))"
    if "World_ok w" "0 \<le> x" "x < width w" "0 \<le> y" "y < height w"
    using getTileRaw_setTileRaw_same [OF that]
    by (simp add: setTileProp_def Let_def set mask_word)
  have get: "getBitValue (setBitValue tile field (Number v)) p =
      Number (uint (drop_bit (offsetOf p)
        (?W ?T AND push_bit (offsetOf p) (mask (length_bf (bitScheme p))))))" for p
    by (simp only: set getBitValue_word ToInt32_Number_sint)
  have higher: "getBitValue (setBitValue tile field (Number v)) g =
      js_or (getBitValue tile g)
        (Number ((v div 2 ^ ?len) mod 2 ^ length_bf (bitScheme g)))"
    if "higherField field = Some g" for g
  proof -
    let ?leng = "length_bf (bitScheme g)"
    let ?X = "drop_bit (?off + ?len) (?T AND push_bit (?off + ?len) (mask ?leng))"
    let ?Y = "take_bit ?leng (drop_bit ?len ?V)"
    from higherField_offset [OF that]
    have og: "offsetOf g = ?off + ?len" and fit: "?off + ?len + ?leng \<le> 32"
      and small: "?leng < 32"
      by simp_all
    have lhs: "getBitValue (setBitValue tile field (Number v)) g = Number (uint (?X OR ?Y))"
      by (simp only: get og field_get_higher [OF fit])
    have "take_bit ?leng ?X = ?X"
      using fit by (intro bit_word_eqI) (auto simp add: bit_simps)
    then have "take_bit ?leng (?X OR ?Y) = ?X OR ?Y"
      by simp
    then have su: "sint (?X OR ?Y) = uint (?X OR ?Y)"
      using small by (rule sint_small)
    have "?len + ?leng \<le> 32"
      using fit by simp
    then have ex: "(word_of_int ((v div 2 ^ ?len) mod 2 ^ ?leng) :: u32) = ?Y"
      by (rule excess_int)
    have tg: "ToInt32 (getBitValue tile g) = ?X"
      by (simp only: getBitValue_word og ToInt32_Number_uint)
    have te: "ToInt32 (Number ((v div 2 ^ ?len) mod 2 ^ ?leng)) = ?Y"
      by (simp only: ToInt32_def JSValue.case ex)
    have "js_or (getBitValue tile g) (Number ((v div 2 ^ ?len) mod 2 ^ ?leng))
        = Number (sint (?X OR ?Y))"
      by (simp only: js_or_def tg te)
    with lhs su show ?thesis
      by simp
  qed
  have top: "getBitValue (setBitValue tile field (Number v)) p = getBitValue tile p"
    if "higherField field = None" "p \<noteq> field" for p
  proof -
    have "offsetOf p + length_bf (bitScheme p) \<le> ?off"
      using that by (rule higherField_None)
    then have "drop_bit (offsetOf p)
        (?W ?T AND push_bit (offsetOf p) (mask (length_bf (bitScheme p))))
      = drop_bit (offsetOf p) (?T AND push_bit (offsetOf p) (mask (length_bf (bitScheme p))))"
      by (rule field_get_lower)
    moreover have "getBitValue tile p =
        Number (uint (drop_bit (offsetOf p)
          (?T AND push_bit (offsetOf p) (mask (length_bf (bitScheme p))))))"
      by (simp only: getBitValue_word)
    ultimately show ?thesis
      by (simp only: get)
  qed
  from formula stored higher top show ?thesis
    by blast
qed

text \<open>
  Writing 21 into the four bits of \<open>entityType\<close> of the tile \<^verbatim>\<open>0xe009\<close> gives
  \<^verbatim>\<open>0xe015\<close>: the entity id goes from \<^verbatim>\<open>0xe00\<close> to \<^verbatim>\<open>0xe01\<close>.
\<close>

theorem setBitValue_unchecked_witness:
  "World_ok world55t \<and> (0::int) \<le> 3 \<and> 3 < width world55t \<and> 3 < height world55t
    \<and> higherField entityType = Some entityId \<and> higherField foodTrail = None
    \<and> homeTrail \<noteq> foodTrail
    \<and> (2::int) ^ length_bf (bitScheme entityType) \<le> 21
    \<and> setBitValue (Number 57353) entityType (Number 21) = Number 57365
    \<and> getTileRaw (setTileProp world55t 3 3 entityType (Number 21)) 3 3 = Number 57365
    \<and> getBitValue (Number 57353) entityId = Number 3584
    \<and> getBitValue (setBitValue (Number 57353) entityType (Number 21)) entityId = Number 3585
    \<and> getBitValue (setBitValue (Number 0) foodTrail (Number 8)) homeTrail
         = getBitValue (Number 0) homeTrail"
proof -
  have ok: "World_ok world55t"
    by (rule World_ok_world55t)
  have b: "(0::int) \<le> 3" "3 < width world55t" "3 < height world55t"
    by (simp_all add: world55t_def world55_def setTileRaw_def)
  have f: "higherField entityType = Some entityId" "higherField foodTrail = None"
    "homeTrail \<noteq> foodTrail" "(2::int) ^ length_bf (bitScheme entityType) \<le> 21"
    by simp_all
  have t: "getTileRaw world55t 3 3 = Number 57353"
    by (simp add: world55t_def world55_def tile_eval)
  have old: "getBitValue (Number 57353) entityId = Number 3584"
    by (simp add: tile_eval)
  note low = setBitValue_unchecked [of "Number 57353" entityType 21 world55t 3 3]
  note top = setBitValue_unchecked [of "Number 0" foodTrail 8 world55t 3 3]
  note low1 = low [THEN conjunct1]
  note low2 = low [THEN conjunct2, THEN conjunct1]
  note low3 = low [THEN conjunct2, THEN conjunct2, THEN conjunct1]
  note top4 = top [THEN conjunct2, THEN conjunct2, THEN conjunct2]
  have "setBitValue (Number 57353) entityType (Number 21) = Number 57365"
    using low1 by (simp add: offsetOf_def ToInt32_def)
  moreover have "getTileRaw (setTileProp world55t 3 3 entityType (Number 21)) 3 3 = Number 57365"
    using low2 ok b by (simp add: t offsetOf_def ToInt32_def)
  moreover have "getBitValue (setBitValue (Number 57353) entityType (Number 21)) entityId
      = Number 3585"
    using low3 f(1) by (simp add: old js_or_def ToInt32_def)
  moreover have "getBitValue (setBitValue (Number 0) foodTrail (Number 8)) homeTrail
      = getBitValue (Number 0) homeTrail"
    using top4 f(2,3) by blast
  ultimately show ?thesis
    using ok b f old by blast
qed

text \<open>
  Writing 8 into the three bits of \<open>foodTrail\<close> of the tile 0 sets bit 24, which is part
  of no field: all five fields read as before. And writing 16 into \<open>entityType\<close> of the
  tile 16, whose entity id is 1, gives the tile 16 again: the entity id has not changed.
\<close>

theorem setBitValue_spill_counterexample:
  "(2::int) ^ length_bf (bitScheme foodTrail) \<le> 8
    \<and> setBitValue (Number 0) foodTrail (Number 8) = Number 16777216
    \<and> getBitValue (Number 16777216) entityType = getBitValue (Number 0) entityType
    \<and> getBitValue (Number 16777216) entityId = getBitValue (Number 0) entityId
    \<and> getBitValue (Number 16777216) terrain = getBitValue (Number 0) terrain
    \<and> getBitValue (Number 16777216) homeTrail = getBitValue (Number 0) homeTrail
    \<and> getBitValue (Number 16777216) foodTrail = getBitValue (Number 0) foodTrail
    \<and> (2::int) ^ length_bf (bitScheme entityType) \<le> 16
    \<and> getBitValue (Number 16) entityId = Number 1
    \<and> setBitValue (Number 16) entityType (Number 16) = Number 16"
  by (simp add: tile_eval)

end
